theory Spec2Isabelle
  imports Main "HOL-Library.Word"
begin

unbundle bit_operations_syntax

section \<open>C scalar types\<close>

text \<open>
  \<^verbatim>\<open>uint32_t\<close> is a 32-bit word. A C \<^verbatim>\<open>float\<close> is carried as its IEEE 754 binary32 bit
  pattern, which is what \<^verbatim>\<open>*(uint32_t*)&config->radius\<close> reads in the hash function.
  Arithmetic on floats decodes the pattern, computes exactly and rounds to nearest, ties
  to even, one rounding per operation (Annex F of the C standard with
  \<^verbatim>\<open>FLT_EVAL_METHOD == 0\<close>, as on x86-64 and AArch64).

  Undefined behaviour of the C program (a read past the end of the data array, a
  dereference of \<^verbatim>\<open>NULL\<close>, a float-to-int conversion out of range) is the value \<open>None\<close>.
\<close>

type_synonym uint32 = "32 word"
type_synonym float32 = "32 word"

text \<open>The three fields of a binary32 pattern: bit 31 is the sign, bits 30..23 the biased
  exponent, bits 22..0 the mantissa.\<close>

definition f_sign :: "float32 \<Rightarrow> bool" where
  "f_sign x = (2 ^ 31 \<le> unat x)"

definition f_exp :: "float32 \<Rightarrow> nat" where
  "f_exp x = (unat x div 2 ^ 23) mod 2 ^ 8"

definition f_mant :: "float32 \<Rightarrow> nat" where
  "f_mant x = unat x mod 2 ^ 23"

definition f_is_nan :: "float32 \<Rightarrow> bool" where
  "f_is_nan x = (f_exp x = 255 \<and> f_mant x \<noteq> 0)"

definition f_is_inf :: "float32 \<Rightarrow> bool" where
  "f_is_inf x = (f_exp x = 255 \<and> f_mant x = 0)"

definition f_is_zero :: "float32 \<Rightarrow> bool" where
  "f_is_zero x = (f_exp x = 0 \<and> f_mant x = 0)"


text \<open>The magnitude of a float that is not a NaN, in units of \<open>2 ^ -149\<close> (the smallest
  subnormal); infinity reads as \<open>2 ^ 128\<close>, above every finite float.\<close>

definition f_units :: "float32 \<Rightarrow> nat" where
  "f_units x = (if f_exp x = 0 then f_mant x
                else (2 ^ 23 + f_mant x) * 2 ^ (f_exp x - 1))"

definition f_sval :: "float32 \<Rightarrow> int" where
  "f_sval x = (if f_sign x then - int (f_units x) else int (f_units x))"

text \<open>Number of binary digits of a natural number.\<close>

fun blen :: "nat \<Rightarrow> nat" where
  "blen n = (if n = 0 then 0 else Suc (blen (n div 2)))"

declare blen.simps [simp del]

text \<open>The number of digits of the quotient \<open>a div b\<close>, found by comparisons in strides:
  the form in which the simplifier evaluates \<open>blen (a div b)\<close> on numerals of a few
  hundred bits.\<close>

fun blq :: "nat list \<Rightarrow> nat \<Rightarrow> nat \<Rightarrow> nat" where
  "blq [] a b = (if b \<le> a then 1 else 0)"
| "blq (s # ss) a b = (if b * 2 ^ s \<le> a then s + blq ss a (b * 2 ^ s) else blq ss a b)"

fun strides_ok :: "nat list \<Rightarrow> bool" where
  "strides_ok [] = True"
| "strides_ok (s # ss) = (s \<le> Suc (sum_list ss) \<and> strides_ok ss)"

text \<open>\<open>a / b\<close> rounded to the nearest natural number, ties to even.\<close>

definition rne :: "nat \<Rightarrow> nat \<Rightarrow> nat" where
  "rne a b =
    (if 2 * (a mod b) < b then a div b
     else if b < 2 * (a mod b) then a div b + 1
     else if even (a div b) then a div b else a div b + 1)"

text \<open>The low 31 bits of the float nearest to \<open>a / b\<close> units. A positive float's bit
  pattern with exponent field \<open>e\<close> and mantissa \<open>m\<close> is \<open>e * 2 ^ 23 + m\<close>, so a mantissa
  that rounds up to \<open>2 ^ 24\<close> carries into the exponent by itself; what reaches the
  exponent field 255 is infinity.\<close>

definition f_round_at :: "nat \<Rightarrow> nat \<Rightarrow> nat \<Rightarrow> nat" where
  "f_round_at k a b = min (k * 2 ^ 23 + rne a (b * 2 ^ k)) 0x7F800000"

definition f_round :: "nat \<Rightarrow> nat \<Rightarrow> nat" where
  "f_round a b = f_round_at (blen (a div b) - 24) a b"

definition f_pack :: "bool \<Rightarrow> nat \<Rightarrow> float32" where
  "f_pack s m = word_of_nat ((if s then 2 ^ 31 else 0) + m)"

definition f_nan :: float32 where
  "f_nan = 0x7FC00000"

definition f_neg :: "float32 \<Rightarrow> float32" where
  "f_neg x = x XOR 0x80000000"

text \<open>An exact sum \<open>z\<close> (in units) as a float; \<open>neg0\<close> is the sign of a zero result:
  negative only when both operands are negative zeros.\<close>

definition f_sum :: "bool \<Rightarrow> int \<Rightarrow> float32" where
  "f_sum neg0 z = (if z = 0 then f_pack neg0 0 else f_pack (z < 0) (f_round (nat \<bar>z\<bar>) 1))"

definition f_add :: "float32 \<Rightarrow> float32 \<Rightarrow> float32" where
  "f_add x y =
    (if f_is_nan x \<or> f_is_nan y then f_nan
     else if f_is_inf x then (if f_is_inf y \<and> f_sign x \<noteq> f_sign y then f_nan else x)
     else if f_is_inf y then y
     else f_sum (f_sign x \<and> f_sign y) (f_sval x + f_sval y))"

definition f_sub :: "float32 \<Rightarrow> float32 \<Rightarrow> float32" where
  "f_sub x y = f_add x (f_neg y)"

definition f_mul :: "float32 \<Rightarrow> float32 \<Rightarrow> float32" where
  "f_mul x y =
    (if f_is_nan x \<or> f_is_nan y then f_nan
     else if (f_is_inf x \<and> f_is_zero y) \<or> (f_is_zero x \<and> f_is_inf y) then f_nan
     else if f_is_inf x \<or> f_is_inf y then f_pack (f_sign x \<noteq> f_sign y) 0x7F800000
     else f_pack (f_sign x \<noteq> f_sign y) (f_round (f_units x * f_units y) (2 ^ 149)))"

definition f_div :: "float32 \<Rightarrow> float32 \<Rightarrow> float32" where
  "f_div x y =
    (if f_is_nan x \<or> f_is_nan y then f_nan
     else if (f_is_inf x \<and> f_is_inf y) \<or> (f_is_zero x \<and> f_is_zero y) then f_nan
     else if f_is_inf x \<or> f_is_zero y then f_pack (f_sign x \<noteq> f_sign y) 0x7F800000
     else if f_is_inf y then f_pack (f_sign x \<noteq> f_sign y) 0
     else f_pack (f_sign x \<noteq> f_sign y) (f_round (f_units x * 2 ^ 149) (f_units y)))"

text \<open>Comparisons: false whenever an operand is a NaN; the two zeros are equal.\<close>

definition f_lt :: "float32 \<Rightarrow> float32 \<Rightarrow> bool" where
  "f_lt x y = (\<not> f_is_nan x \<and> \<not> f_is_nan y \<and> f_sval x < f_sval y)"

definition f_le :: "float32 \<Rightarrow> float32 \<Rightarrow> bool" where
  "f_le x y = (\<not> f_is_nan x \<and> \<not> f_is_nan y \<and> f_sval x \<le> f_sval y)"

definition f_eq :: "float32 \<Rightarrow> float32 \<Rightarrow> bool" where
  "f_eq x y = (\<not> f_is_nan x \<and> \<not> f_is_nan y \<and> f_sval x = f_sval y)"

text \<open>Conversions: \<^verbatim>\<open>(float)n\<close> rounds; \<^verbatim>\<open>(int)x\<close> truncates towards zero and is undefined
  when the truncated value does not fit a 32-bit \<^verbatim>\<open>int\<close>.\<close>

definition f_of_nat :: "nat \<Rightarrow> float32" where
  "f_of_nat n = f_pack False (f_round (n * 2 ^ 149) 1)"

definition f_of_uint32 :: "uint32 \<Rightarrow> float32" where
  "f_of_uint32 w = f_of_nat (unat w)"

definition f_of_int :: "int \<Rightarrow> float32" where
  "f_of_int i = f_pack (i < 0) (f_round (nat \<bar>i\<bar> * 2 ^ 149) 1)"

definition f_to_int :: "float32 \<Rightarrow> int option" where
  "f_to_int x =
    (if f_exp x = 255 then None
     else if f_sign x then
       (if f_units x div 2 ^ 149 \<le> 2 ^ 31 then Some (- int (f_units x div 2 ^ 149)) else None)
     else
       (if f_units x div 2 ^ 149 < 2 ^ 31 then Some (int (f_units x div 2 ^ 149)) else None))"

section \<open>Arrays behind pointers\<close>

text \<open>A pointer to an array is \<open>None\<close> when it is \<^verbatim>\<open>NULL\<close>, else the elements it points to.
  \<open>c_index p i\<close> is the read \<^verbatim>\<open>p[i]\<close>; \<open>c_elems p n\<close> is what a loop
  \<^verbatim>\<open>for (i = 0; i < n; i++)\<close> over \<^verbatim>\<open>p[i]\<close> reads. Both are undefined through \<^verbatim>\<open>NULL\<close> and
  past the last element.\<close>

definition c_index :: "'a list option \<Rightarrow> nat \<Rightarrow> 'a option" where
  "c_index p i = (case p of None \<Rightarrow> None
                  | Some xs \<Rightarrow> if i < length xs then Some (xs ! i) else None)"

definition c_elems :: "'a list option \<Rightarrow> uint32 \<Rightarrow> 'a list option" where
  "c_elems p n = (if n = 0 then Some []
                  else case p of None \<Rightarrow> None
                  | Some xs \<Rightarrow> if unat n \<le> length xs then Some (take (unat n) xs) else None)"

section \<open>Pie chart: configuration structures\<close>

record Clay_Color =
  color_r :: float32
  color_g :: float32
  color_b :: float32
  color_a :: float32

record Clay_PieChart_DataPoint =
  dp_value :: float32
  dp_label :: string
  dp_color :: Clay_Color
  dp_exploded :: bool

datatype Clay_PieChart_ColorMode =
    CLAY_PIECHART_COLOR_MODE_PER_SEGMENT
  | CLAY_PIECHART_COLOR_MODE_PALETTE
  | CLAY_PIECHART_COLOR_MODE_GRADIENT
  | CLAY_PIECHART_COLOR_MODE_RANDOM

text \<open>The integer value of the enumerator, as \<^verbatim>\<open>hash ^= config->colorMode\<close> reads it.\<close>

fun colorMode_value :: "Clay_PieChart_ColorMode \<Rightarrow> uint32" where
  "colorMode_value CLAY_PIECHART_COLOR_MODE_PER_SEGMENT = 0"
| "colorMode_value CLAY_PIECHART_COLOR_MODE_PALETTE = 1"
| "colorMode_value CLAY_PIECHART_COLOR_MODE_GRADIENT = 2"
| "colorMode_value CLAY_PIECHART_COLOR_MODE_RANDOM = 3"

text \<open>The union \<^verbatim>\<open>colorConfig\<close>, tagged with the member that was stored last. Reading
  another member than the stored one reinterprets its bytes; the model leaves such a read
  undefined.\<close>

datatype Clay_PieChart_ColorConfig =
    Palette "Clay_Color list option" uint32
  | Gradient Clay_Color Clay_Color
  | Random uint32

record Clay_PieChart_Config =
  data :: "Clay_PieChart_DataPoint list option"
  dataCount :: uint32
  radius :: float32
  donutHoleRadius :: float32
  explodeDistance :: float32
  showLabels :: bool
  showValues :: bool
  showPercentages :: bool
  showLegend :: bool
  showSectorLines :: bool
  backgroundColor :: Clay_Color
  labelTextColor :: Clay_Color
  sectorLineColor :: Clay_Color
  labelFontSize :: "16 word"
  labelFontId :: "16 word"
  startAngle :: float32
  colorMode :: Clay_PieChart_ColorMode
  colorConfig :: Clay_PieChart_ColorConfig

section \<open>Pie chart: helpers\<close>

text \<open>\<^verbatim>\<open>Clay_PieChart__HashConfig\<close>: FNV-1a over the value bits and the exploded flag of each
  data point, then the radius, the hole radius, the colour mode and the sector-line flag.
  Multiplication wraps at 32 bits.\<close>

definition hash_mix :: "uint32 \<Rightarrow> uint32 \<Rightarrow> uint32" where
  "hash_mix h v = (h XOR v) * 16777619"

definition hash_point :: "uint32 \<Rightarrow> Clay_PieChart_DataPoint \<Rightarrow> uint32" where
  "hash_point h d = hash_mix (hash_mix h (dp_value d)) (if dp_exploded d then 1 else 0)"

definition Clay_PieChart__HashConfig :: "Clay_PieChart_Config \<Rightarrow> uint32 option" where
  "Clay_PieChart__HashConfig c =
    (case c_elems (data c) (dataCount c) of None \<Rightarrow> None
     | Some ds \<Rightarrow>
        Some (hash_mix (hash_mix (hash_mix (hash_mix (foldl hash_point 2166136261 ds)
          (radius c)) (donutHoleRadius c)) (colorMode_value (colorMode c)))
          (if showSectorLines c then 1 else 0)))"

definition Clay_PieChart__CalculateTotalValue :: "Clay_PieChart_Config \<Rightarrow> float32 option" where
  "Clay_PieChart__CalculateTotalValue c =
    (case c_elems (data c) (dataCount c) of None \<Rightarrow> None
     | Some ds \<Rightarrow> Some (foldl (\<lambda>tot d. f_add tot (dp_value d)) 0 ds))"

definition lerp :: "float32 \<Rightarrow> float32 \<Rightarrow> float32 \<Rightarrow> float32" where
  "lerp s e t = f_add s (f_mul (f_sub e s) t)"

definition Clay_PieChart__LerpColor :: "Clay_Color \<Rightarrow> Clay_Color \<Rightarrow> float32 \<Rightarrow> Clay_Color" where
  "Clay_PieChart__LerpColor s e t =
    \<lparr> color_r = lerp (color_r s) (color_r e) t,
      color_g = lerp (color_g s) (color_g e) t,
      color_b = lerp (color_b s) (color_b e) t,
      color_a = lerp (color_a s) (color_a e) t \<rparr>"

text \<open>\<^verbatim>\<open>Clay_PieChart__Random\<close> returns the new seed, which is also the value it stores back
  through the pointer.\<close>

definition Clay_PieChart__Random :: "uint32 \<Rightarrow> uint32" where
  "Clay_PieChart__Random sd = (sd * 1103515245 + 12345) AND 0x7FFFFFFF"

definition random_color :: "uint32 \<Rightarrow> Clay_Color" where
  "random_color rnd =
    \<lparr> color_r = f_of_uint32 (100 + rnd mod 156),
      color_g = f_of_uint32 (100 + drop_bit 8 rnd mod 156),
      color_b = f_of_uint32 (100 + drop_bit 16 rnd mod 156),
      color_a = f_of_uint32 255 \<rparr>"

text \<open>The interpolation parameter of the gradient branch:
  \<^verbatim>\<open>dataCount > 1 ? (float)index / (float)(dataCount - 1) : 0.0f\<close>.\<close>

definition gradient_t :: "uint32 \<Rightarrow> uint32 \<Rightarrow> float32" where
  "gradient_t n index = (if 1 < n then f_div (f_of_uint32 index) (f_of_uint32 (n - 1)) else 0)"

text \<open>\<^verbatim>\<open>Clay_PieChart__GetSegmentColor\<close>. The function-local \<^verbatim>\<open>static uint32_t seed\<close> is passed in
  and returned; \<open>now\<close> is what \<^verbatim>\<open>(uint32_t)time(NULL)\<close> returns.\<close>

definition Clay_PieChart__GetSegmentColor ::
  "uint32 \<Rightarrow> Clay_PieChart_Config \<Rightarrow> uint32 \<Rightarrow> uint32 \<Rightarrow> (Clay_Color \<times> uint32) option" where
  "Clay_PieChart__GetSegmentColor now c index sd =
    (case colorMode c of
       CLAY_PIECHART_COLOR_MODE_PER_SEGMENT \<Rightarrow>
         map_option (\<lambda>d. (dp_color d, sd)) (c_index (data c) (unat index))
     | CLAY_PIECHART_COLOR_MODE_PALETTE \<Rightarrow>
         (case colorConfig c of
            Palette colors count \<Rightarrow>
              if colors \<noteq> None \<and> 0 < count
              then map_option (\<lambda>col. (col, sd)) (c_index colors (unat (index mod count)))
              else map_option (\<lambda>d. (dp_color d, sd)) (c_index (data c) (unat index))
          | _ \<Rightarrow> None)
     | CLAY_PIECHART_COLOR_MODE_GRADIENT \<Rightarrow>
         (case colorConfig c of
            Gradient s e \<Rightarrow>
              Some (Clay_PieChart__LerpColor s e (gradient_t (dataCount c) index), sd)
          | _ \<Rightarrow> None)
     | CLAY_PIECHART_COLOR_MODE_RANDOM \<Rightarrow>
         (case colorConfig c of
            Random cfg_seed \<Rightarrow>
              let sd1 = (if sd = 0 then (if cfg_seed \<noteq> 0 then cfg_seed else now) else sd);
                  rnd = Clay_PieChart__Random sd1
              in Some (random_color rnd, rnd)
          | _ \<Rightarrow> None))"

section \<open>Pie chart: what the functions emit\<close>

text \<open>The calls into raylib and the element declarations handed to the layout engine, in
  the order the code makes them. A segment is recorded with the arguments of
  \<^verbatim>\<open>Clay_PieChart__RenderSegment\<close>, the geometry of the configuration it is given and the
  colour it obtains; the sector, ring and line primitives drawn from them are raylib's.\<close>

record Segment =
  seg_index :: uint32
  seg_centerX :: float32
  seg_centerY :: float32
  seg_startAngleDeg :: float32
  seg_sweepAngleDeg :: float32
  seg_radius :: float32
  seg_donutHoleRadius :: float32
  seg_explodeDistance :: float32
  seg_exploded :: bool
  seg_color :: Clay_Color
  seg_isLast :: bool

datatype event =
    UnloadRenderTexture nat
  | LoadRenderTexture nat int int
  | BeginTextureMode nat
  | ClearBackground
  | EndTextureMode
  | RenderSegment Segment
  | ChartContainer string bool
  | ChartContainerFixed string bool float32 float32
  | CustomElement float32 float32
  | PieArea float32 float32
  | LegendItem uint32 Clay_Color string float32
  | LogNoData uint32 bool
  | LogNotFound uint32 "uint32 list"

definition Clay_PieChart__RenderSegment ::
  "uint32 \<Rightarrow> Clay_PieChart_DataPoint \<Rightarrow> uint32 \<Rightarrow> float32 \<Rightarrow> float32 \<Rightarrow> float32 \<Rightarrow> float32
     \<Rightarrow> Clay_PieChart_Config \<Rightarrow> bool \<Rightarrow> uint32 \<Rightarrow> (event \<times> uint32) option" where
  "Clay_PieChart__RenderSegment now d index cx cy start sweep c isLast sd =
    (case Clay_PieChart__GetSegmentColor now c index sd of None \<Rightarrow> None
     | Some (col, sd') \<Rightarrow>
        Some (RenderSegment
          \<lparr> seg_index = index, seg_centerX = cx, seg_centerY = cy,
            seg_startAngleDeg = start, seg_sweepAngleDeg = sweep,
            seg_radius = radius c, seg_donutHoleRadius = donutHoleRadius c,
            seg_explodeDistance = explodeDistance c, seg_exploded = dp_exploded d,
            seg_color = col, seg_isLast = isLast \<rparr>, sd'))"

text \<open>The sweep of one segment: \<^verbatim>\<open>(data[i].value / totalValue) * 360.0f\<close>.\<close>

definition sweepAngleDeg :: "float32 \<Rightarrow> float32 \<Rightarrow> float32" where
  "sweepAngleDeg tot v = f_mul (f_div v tot) 0x43B40000"

text \<open>The segment loop shared by \<^verbatim>\<open>Clay_PieChart_PrepareTexture\<close> and \<^verbatim>\<open>Clay_PieChart_Draw\<close>:
  \<open>ds\<close> are the data points from index \<open>i\<close> on, \<open>ang\<close> is \<^verbatim>\<open>currentAngleDeg\<close>.\<close>

fun segment_loop ::
  "uint32 \<Rightarrow> Clay_PieChart_Config \<Rightarrow> float32 \<Rightarrow> float32 \<Rightarrow> float32
     \<Rightarrow> Clay_PieChart_DataPoint list \<Rightarrow> uint32 \<Rightarrow> float32 \<Rightarrow> uint32 \<Rightarrow> (event list \<times> uint32) option" where
  "segment_loop now c tot cx cy [] i ang sd = Some ([], sd)"
| "segment_loop now c tot cx cy (d # ds) i ang sd =
    (case Clay_PieChart__RenderSegment now d i cx cy ang (sweepAngleDeg tot (dp_value d)) c
            (i = dataCount c - 1) sd of
       None \<Rightarrow> None
     | Some (ev, sd1) \<Rightarrow>
        (case segment_loop now c tot cx cy ds (i + 1)
                (f_add ang (sweepAngleDeg tot (dp_value d))) sd1 of
           None \<Rightarrow> None
         | Some (evs, sd2) \<Rightarrow> Some (ev # evs, sd2)))"

text \<open>The legend loop of \<^verbatim>\<open>Clay_PieChart__RenderLegend\<close>: one item per data point, with its
  colour, label and percentage \<^verbatim>\<open>(value / totalValue) * 100.0f\<close>. The text is formatted into
  \<^verbatim>\<open>percentBuffers[i]\<close>, an array of 32 buffers.\<close>

fun legend_loop ::
  "uint32 \<Rightarrow> Clay_PieChart_Config \<Rightarrow> float32 \<Rightarrow> Clay_PieChart_DataPoint list \<Rightarrow> uint32 \<Rightarrow> uint32
     \<Rightarrow> (event list \<times> uint32) option" where
  "legend_loop now c tot [] i sd = Some ([], sd)"
| "legend_loop now c tot (d # ds) i sd =
    (case Clay_PieChart__GetSegmentColor now c i sd of None \<Rightarrow> None
     | Some (col, sd1) \<Rightarrow>
        if 32 \<le> i then None
        else (case legend_loop now c tot ds (i + 1) sd1 of None \<Rightarrow> None
              | Some (evs, sd2) \<Rightarrow>
                  Some (LegendItem i col (dp_label d)
                          (f_mul (f_div (dp_value d) tot) 0x42C80000) # evs, sd2)))"

definition Clay_PieChart__RenderLegend ::
  "uint32 \<Rightarrow> Clay_PieChart_Config \<Rightarrow> float32 \<Rightarrow> uint32 \<Rightarrow> (event list \<times> uint32) option" where
  "Clay_PieChart__RenderLegend now c tot sd =
    (case c_elems (data c) (dataCount c) of None \<Rightarrow> None
     | Some ds \<Rightarrow> legend_loop now c tot ds 0 sd)"

section \<open>Pie chart as a custom element with a cached texture\<close>

record Texture2D =
  tex_width :: int
  tex_height :: int

record RenderTexture2D =
  rt_id :: nat
  rt_texture :: Texture2D

definition zero_texture :: RenderTexture2D where
  "zero_texture = \<lparr> rt_id = 0, rt_texture = \<lparr> tex_width = 0, tex_height = 0 \<rparr> \<rparr>"

definition CLAY_PIECHART_CUSTOM_ELEMENT_TYPE :: uint32 where
  "CLAY_PIECHART_CUSTOM_ELEMENT_TYPE = 0x50494543"

record Clay_PieChart_CustomElementData =
  elementType :: uint32
  config :: Clay_PieChart_Config
  totalValue :: float32
  configHash :: uint32
  texture :: RenderTexture2D
  textureValid :: bool

text \<open>The state the pie chart code keeps between calls: the single
  \<^verbatim>\<open>static Clay_PieChart_CustomElementData elementDataStorage\<close> of \<^verbatim>\<open>Clay_PieChart_Render\<close>, the
  \<^verbatim>\<open>static uint32_t seed\<close> of \<^verbatim>\<open>Clay_PieChart__GetSegmentColor\<close>, and the render textures that
  raylib currently holds.\<close>

record world =
  elementDataStorage :: Clay_PieChart_CustomElementData
  seed :: uint32
  live :: "nat list"

text \<open>Modelled from the spec: raylib's \<^verbatim>\<open>LoadRenderTexture\<close> and \<^verbatim>\<open>UnloadRenderTexture\<close> are not
  part of the repository. The spec describes an offscreen target that is created with the
  pixel dimensions it is asked for and is released by its owner; creation hands out a
  handle that is not zero and not in use, release of the handle 0 does nothing.\<close>

definition fresh_id :: "nat list \<Rightarrow> nat" where
  "fresh_id ids = Suc (fold max ids 0)"

definition raylib_LoadRenderTexture :: "int \<Rightarrow> int \<Rightarrow> nat list \<Rightarrow> RenderTexture2D \<times> nat list" where
  "raylib_LoadRenderTexture w h ids =
    (\<lparr> rt_id = fresh_id ids, rt_texture = \<lparr> tex_width = w, tex_height = h \<rparr> \<rparr>,
     fresh_id ids # ids)"

definition raylib_UnloadRenderTexture :: "RenderTexture2D \<Rightarrow> nat list \<Rightarrow> nat list" where
  "raylib_UnloadRenderTexture t ids = (if 0 < rt_id t then removeAll (rt_id t) ids else ids)"

text \<open>\<^verbatim>\<open>Clay_PieChart_Render\<close> of the custom-element header. \<open>chart\<close> is the element id string.\<close>

definition Clay_PieChart_Render ::
  "uint32 \<Rightarrow> string \<Rightarrow> Clay_PieChart_Config \<Rightarrow> world \<Rightarrow> (world \<times> event list) option" where
  "Clay_PieChart_Render now chart c w =
    (if dataCount c = 0 \<or> data c = None then Some (w, [])
     else case Clay_PieChart__CalculateTotalValue c of None \<Rightarrow> None
     | Some tot \<Rightarrow>
        (if f_le tot 0 then Some (w, [])
         else case Clay_PieChart__HashConfig c of None \<Rightarrow> None
         | Some newConfigHash \<Rightarrow>
           (let ed = elementDataStorage w;
               configChanged = (configHash ed \<noteq> newConfigHash);
               unload = (configChanged \<and> textureValid ed \<and> rt_id (texture ed) \<noteq> 0);
               ed1 = (if unload then ed\<lparr>textureValid := False\<rparr> else ed);
               ed2 = ed1\<lparr>elementType := CLAY_PIECHART_CUSTOM_ELEMENT_TYPE, config := c,
                         totalValue := tot, configHash := newConfigHash\<rparr>;
               ed3 = (if configChanged
                      then ed2\<lparr>textureValid := False, texture := zero_texture\<rparr> else ed2);
               size = f_add (f_mul (radius c) 0x40000000) (f_mul (explodeDistance c) 0x40000000)
            in (case (if showLegend c then Clay_PieChart__RenderLegend now c tot (seed w)
                      else Some ([], seed w)) of
                  None \<Rightarrow> None
                | Some (legend, sd) \<Rightarrow>
                   Some (w\<lparr>elementDataStorage := ed3, seed := sd,
                           live := (if unload then raylib_UnloadRenderTexture (texture ed) (live w)
                                    else live w)\<rparr>,
                         (if unload then [UnloadRenderTexture (rt_id (texture ed))] else [])
                           @ [ChartContainer chart (showLegend c), CustomElement size size]
                           @ legend)))))"

text \<open>A render command as far as \<^verbatim>\<open>Clay_PieChart_PrepareTexture\<close> reads it: the custom data
  pointer and the bounding box. The pointer is \<^verbatim>\<open>NULL\<close>, the address of
  \<^verbatim>\<open>elementDataStorage\<close>, or custom data of another widget, whose first word is not the pie
  chart's type identifier.\<close>

datatype custom_ptr = NullData | PieElementData | OtherData

record Clay_BoundingBox =
  bb_x :: float32
  bb_y :: float32
  bb_width :: float32
  bb_height :: float32

record Clay_RenderCommand =
  customData :: custom_ptr
  boundingBox :: Clay_BoundingBox

text \<open>The texture size for one side of the bounding box: \<^verbatim>\<open>(int)(side * 2.0f)\<close>, at least 128.\<close>

definition texture_side :: "float32 \<Rightarrow> int option" where
  "texture_side side = map_option (\<lambda>n. if n < 128 then 128 else n) (f_to_int (f_mul side 0x40000000))"

text \<open>The condition \<^verbatim>\<open>needsRegeneration\<close> of \<^verbatim>\<open>Clay_PieChart_PrepareTexture\<close>.\<close>

definition needsRegeneration :: "Clay_PieChart_CustomElementData \<Rightarrow> uint32 \<Rightarrow> int \<Rightarrow> int \<Rightarrow> bool" where
  "needsRegeneration ed currentHash texWidth texHeight =
    (\<not> textureValid ed \<or> configHash ed \<noteq> currentHash \<or>
     tex_width (rt_texture (texture ed)) \<noteq> texWidth \<or>
     tex_height (rt_texture (texture ed)) \<noteq> texHeight)"

text \<open>The block \<^verbatim>\<open>Render pie chart to texture\<close> between \<^verbatim>\<open>BeginTextureMode\<close> and
  \<^verbatim>\<open>EndTextureMode\<close>: the scale to the full texture resolution, the centre, the scaled copy
  of the configuration and the segment loop.\<close>

definition render_to_texture ::
  "uint32 \<Rightarrow> Clay_PieChart_Config \<Rightarrow> float32 \<Rightarrow> int \<Rightarrow> int \<Rightarrow> uint32
     \<Rightarrow> (event list \<times> uint32) option" where
  "render_to_texture now c tot texWidth texHeight sd =
    (let maxDimension = f_add (f_mul (radius c) 0x40000000) (f_mul (explodeDistance c) 0x40000000);
         scaleX = f_div (f_of_int texWidth) maxDimension;
         scaleY = f_div (f_of_int texHeight) maxDimension;
         scale = (if f_lt scaleX scaleY then scaleX else scaleY);
         centerX = f_div (f_of_int texWidth) 0x40000000;
         centerY = f_div (f_of_int texHeight) 0x40000000;
         scaledConfig = c\<lparr>radius := f_mul (radius c) scale,
                          explodeDistance := f_mul (explodeDistance c) scale,
                          donutHoleRadius := f_mul (donutHoleRadius c) scale\<rparr>
     in case c_elems (data scaledConfig) (dataCount scaledConfig) of None \<Rightarrow> None
        | Some ds \<Rightarrow>
            segment_loop now scaledConfig tot centerX centerY ds 0 (startAngle c) sd)"

text \<open>The body of \<^verbatim>\<open>if (needsRegeneration)\<close>.\<close>

definition regenerate ::
  "uint32 \<Rightarrow> uint32 \<Rightarrow> int \<Rightarrow> int \<Rightarrow> world \<Rightarrow> (world \<times> event list) option" where
  "regenerate now currentHash texWidth texHeight w =
    (let ed = elementDataStorage w;
         unload = (textureValid ed \<and> rt_id (texture ed) \<noteq> 0);
         live1 = (if unload then raylib_UnloadRenderTexture (texture ed) (live w) else live w);
         loaded = raylib_LoadRenderTexture texWidth texHeight live1
     in case render_to_texture now (config ed) (totalValue ed) texWidth texHeight (seed w) of
          None \<Rightarrow> None
        | Some (segments, sd) \<Rightarrow>
           Some (w\<lparr>elementDataStorage :=
                      ed\<lparr>texture := fst loaded, textureValid := True,
                         configHash := currentHash\<rparr>,
                    seed := sd, live := snd loaded\<rparr>,
                 (if unload then [UnloadRenderTexture (rt_id (texture ed))] else [])
                   @ [LoadRenderTexture (rt_id (fst loaded)) texWidth texHeight,
                      BeginTextureMode (rt_id (fst loaded)), ClearBackground]
                   @ segments @ [EndTextureMode]))"

definition Clay_PieChart_PrepareTexture ::
  "uint32 \<Rightarrow> Clay_RenderCommand \<Rightarrow> world \<Rightarrow> (world \<times> event list) option" where
  "Clay_PieChart_PrepareTexture now cmd w =
    (if customData cmd \<noteq> PieElementData
        \<or> elementType (elementDataStorage w) \<noteq> CLAY_PIECHART_CUSTOM_ELEMENT_TYPE
     then Some (w, [])
     else let ed = elementDataStorage w; c = config ed in
       if dataCount c = 0 \<or> data c = None \<or> f_le (totalValue ed) 0 then Some (w, [])
       else case texture_side (bb_width (boundingBox cmd)) of None \<Rightarrow> None
       | Some texWidth \<Rightarrow>
          (case texture_side (bb_height (boundingBox cmd)) of None \<Rightarrow> None
           | Some texHeight \<Rightarrow>
              (case Clay_PieChart__HashConfig c of None \<Rightarrow> None
               | Some currentHash \<Rightarrow>
                  if needsRegeneration ed currentHash texWidth texHeight
                  then regenerate now currentHash texWidth texHeight w
                  else Some (w, []))))"

text \<open>\<^verbatim>\<open>Clay_PieChart_GetTexture\<close>: \<open>None\<close> is the \<^verbatim>\<open>NULL\<close> it returns.\<close>

definition Clay_PieChart_GetTexture :: "Clay_RenderCommand \<Rightarrow> world \<Rightarrow> RenderTexture2D option" where
  "Clay_PieChart_GetTexture cmd w =
    (if customData cmd \<noteq> PieElementData
        \<or> elementType (elementDataStorage w) \<noteq> CLAY_PIECHART_CUSTOM_ELEMENT_TYPE
     then None
     else if \<not> textureValid (elementDataStorage w) then None
     else Some (texture (elementDataStorage w)))"

text \<open>The state before the first call: static storage is zero-initialised and no render
  texture exists.\<close>

definition zero_color :: Clay_Color where
  "zero_color = \<lparr> color_r = 0, color_g = 0, color_b = 0, color_a = 0 \<rparr>"

definition zero_config :: Clay_PieChart_Config where
  "zero_config =
    \<lparr> data = None, dataCount = 0, radius = 0, donutHoleRadius = 0, explodeDistance = 0,
      showLabels = False, showValues = False, showPercentages = False, showLegend = False,
      showSectorLines = False, backgroundColor = zero_color, labelTextColor = zero_color,
      sectorLineColor = zero_color, labelFontSize = 0, labelFontId = 0, startAngle = 0,
      colorMode = CLAY_PIECHART_COLOR_MODE_PER_SEGMENT, colorConfig = Palette None 0 \<rparr>"

definition initial_world :: world where
  "initial_world =
    \<lparr> elementDataStorage =
        \<lparr> elementType = 0, config = zero_config, totalValue = 0, configHash = 0,
          texture = zero_texture, textureValid = False \<rparr>,
      seed = 0, live = [] \<rparr>"

text \<open>A frame-by-frame use of the widget: any sequence of calls of the two entry points.\<close>

datatype call =
    Render string Clay_PieChart_Config
  | PrepareTexture Clay_RenderCommand

fun do_call :: "uint32 \<Rightarrow> call \<Rightarrow> world \<Rightarrow> (world \<times> event list) option" where
  "do_call now (Render chart c) w = Clay_PieChart_Render now chart c w"
| "do_call now (PrepareTexture cmd) w = Clay_PieChart_PrepareTexture now cmd w"

fun run :: "uint32 \<Rightarrow> call list \<Rightarrow> world \<Rightarrow> (world \<times> event list) option" where
  "run now [] w = Some (w, [])"
| "run now (k # ks) w =
    (case do_call now k w of None \<Rightarrow> None
     | Some (w1, evs1) \<Rightarrow>
        (case run now ks w1 of None \<Rightarrow> None
         | Some (w2, evs2) \<Rightarrow> Some (w2, evs1 @ evs2)))"

text \<open>The render textures alive after a trace of raylib calls, starting from \<open>ids\<close>.\<close>

fun replay :: "event list \<Rightarrow> nat list \<Rightarrow> nat list" where
  "replay [] ids = ids"
| "replay (UnloadRenderTexture t # evs) ids = replay evs (removeAll t ids)"
| "replay (LoadRenderTexture t w h # evs) ids = replay evs (t # ids)"
| "replay (ev # evs) ids = replay evs ids"

text \<open>The discipline on a trace that starts with the textures \<open>ids\<close> alive: at every
  point at most one render texture is alive, and a texture is only loaded when none is.\<close>

fun texture_event :: "event \<Rightarrow> bool" where
  "texture_event (UnloadRenderTexture t) = True"
| "texture_event (LoadRenderTexture t w h) = True"
| "texture_event ev = False"

fun loads :: "event \<Rightarrow> bool" where
  "loads (LoadRenderTexture t w h) = True"
| "loads ev = False"

fun trace_ok :: "nat list \<Rightarrow> event list \<Rightarrow> bool" where
  "trace_ok ids [] = (length ids \<le> 1)"
| "trace_ok ids (ev # evs) =
    (length ids \<le> 1 \<and> (if loads ev then ids = [] else True) \<and> trace_ok (replay [ev] ids) evs)"

text \<open>The cached element and raylib agree: a valid texture is the one texture alive, an
  invalid one means that none is.\<close>

definition cache_consistent :: "world \<Rightarrow> bool" where
  "cache_consistent w =
    (if textureValid (elementDataStorage w)
     then rt_id (texture (elementDataStorage w)) \<noteq> 0
          \<and> live w = [rt_id (texture (elementDataStorage w))]
     else live w = [])"

text \<open>The segments in a trace, and the start angles of segments laid out one after the
  other from a first angle: each next start is the float sum of the start and the sweep
  before it.\<close>

fun segments_of :: "event list \<Rightarrow> Segment list" where
  "segments_of [] = []"
| "segments_of (RenderSegment s # evs) = s # segments_of evs"
| "segments_of (ev # evs) = segments_of evs"

fun start_angles :: "float32 \<Rightarrow> float32 list \<Rightarrow> float32 list" where
  "start_angles ang [] = []"
| "start_angles ang (sweep # sweeps) = ang # start_angles (f_add ang sweep) sweeps"

section \<open>Pie chart drawn directly\<close>

text \<open>The second pie chart header keeps no texture: \<^verbatim>\<open>Clay_PieChart_Render\<close> declares a
  container of fixed size and \<^verbatim>\<open>Clay_PieChart_Draw\<close> draws the segments each frame. Its
  functions that share a name with the custom-element header carry the suffix \<open>_direct\<close>.
  The legend of this header computes the total itself, with the same result.\<close>

definition Clay_PieChart_Render_direct ::
  "uint32 \<Rightarrow> string \<Rightarrow> Clay_PieChart_Config \<Rightarrow> float32 \<Rightarrow> float32 \<Rightarrow> uint32
     \<Rightarrow> (event list \<times> uint32) option" where
  "Clay_PieChart_Render_direct now chart c width height sd =
    (if dataCount c = 0 \<or> data c = None then Some ([], sd)
     else case Clay_PieChart__CalculateTotalValue c of None \<Rightarrow> None
     | Some tot \<Rightarrow>
        (if f_le tot 0 then Some ([], sd)
         else let size = f_add (f_mul (radius c) 0x40000000) (f_mul (explodeDistance c) 0x40000000)
          in (case (if showLegend c then Clay_PieChart__RenderLegend now c tot sd
                    else Some ([], sd)) of
                None \<Rightarrow> None
              | Some (legend, sd1) \<Rightarrow>
                 Some ([ChartContainerFixed chart (showLegend c) width height, PieArea size size]
                         @ legend, sd1))))"

text \<open>\<^verbatim>\<open>Clay_PieChart_Draw\<close>. \<open>chartElementId\<close> is the id that Clay's \<^verbatim>\<open>Clay_GetElementId\<close> gives
  the chart's name; the render commands are read as pairs of id and bounding box. What is
  written to \<^verbatim>\<open>stderr\<close> is part of the trace.\<close>

definition Clay_PieChart_Draw ::
  "uint32 \<Rightarrow> uint32 \<Rightarrow> Clay_PieChart_Config \<Rightarrow> (uint32 \<times> Clay_BoundingBox) list \<Rightarrow> uint32
     \<Rightarrow> (event list \<times> uint32) option" where
  "Clay_PieChart_Draw now chartElementId c renderCommands sd =
    (if dataCount c = 0 \<or> data c = None then Some ([LogNoData (dataCount c) (data c = None)], sd)
     else case Clay_PieChart__CalculateTotalValue c of None \<Rightarrow> None
     | Some tot \<Rightarrow>
        (if f_le tot 0 then Some ([], sd)
         else case find (\<lambda>cmd. fst cmd = chartElementId) renderCommands of
          None \<Rightarrow> Some ([LogNotFound chartElementId (map fst (take 5 renderCommands))], sd)
        | Some (_, chartBounds) \<Rightarrow>
           (let pieAreaSize = f_add (f_mul (radius c) 0x40000000) (f_mul (explodeDistance c) 0x40000000);
               centerX = (if showLegend c
                          then f_add (f_add (bb_x chartBounds) 0x41800000) (f_div pieAreaSize 0x40000000)
                          else f_add (bb_x chartBounds) (f_div (bb_width chartBounds) 0x40000000));
               centerY = f_add (bb_y chartBounds) (f_div (bb_height chartBounds) 0x40000000)
           in case c_elems (data c) (dataCount c) of None \<Rightarrow> None
              | Some ds \<Rightarrow> segment_loop now c tot centerX centerY ds 0 (startAngle c) sd)))"

section \<open>Bar chart: colours and the configuration buffer\<close>

record Clay_BarChart_DataPoint =
  bar_value :: float32
  bar_label :: string
  bar_color :: Clay_Color

datatype Clay_BarChart_Orientation =
    CLAY_BARCHART_ORIENTATION_VERTICAL
  | CLAY_BARCHART_ORIENTATION_HORIZONTAL

datatype Clay_BarChart_ColorMode =
    CLAY_BARCHART_COLOR_MODE_PER_BAR
  | CLAY_BARCHART_COLOR_MODE_PALETTE
  | CLAY_BARCHART_COLOR_MODE_GRADIENT
  | CLAY_BARCHART_COLOR_MODE_RANDOM

datatype Clay_BarChart_ColorConfig =
    BarPalette "Clay_Color list option" uint32
  | BarGradient Clay_Color Clay_Color
  | BarRandom uint32

text \<open>The fields of \<^verbatim>\<open>Clay_BarChart_Config\<close>; those whose name the pie chart configuration
  also has carry the prefix \<open>bar_\<close>.\<close>

record Clay_BarChart_Config =
  bar_data :: "Clay_BarChart_DataPoint list option"
  bar_dataCount :: uint32
  orientation :: Clay_BarChart_Orientation
  barWidth :: float32
  barGap :: float32
  maxValue :: float32
  bar_backgroundColor :: Clay_Color
  gridColor :: Clay_Color
  bar_labelTextColor :: Clay_Color
  bar_labelFontSize :: "16 word"
  bar_labelFontId :: "16 word"
  showGrid :: bool
  bar_showLabels :: bool
  bar_showValues :: bool
  bar_colorMode :: Clay_BarChart_ColorMode
  bar_colorConfig :: Clay_BarChart_ColorConfig

definition Clay_BarChart__LerpColor :: "Clay_Color \<Rightarrow> Clay_Color \<Rightarrow> float32 \<Rightarrow> Clay_Color" where
  "Clay_BarChart__LerpColor s e t =
    \<lparr> color_r = lerp (color_r s) (color_r e) t,
      color_g = lerp (color_g s) (color_g e) t,
      color_b = lerp (color_b s) (color_b e) t,
      color_a = lerp (color_a s) (color_a e) t \<rparr>"

definition Clay_BarChart__Random :: "uint32 \<Rightarrow> uint32" where
  "Clay_BarChart__Random sd = (sd * 1103515245 + 12345) AND 0x7FFFFFFF"

text \<open>\<^verbatim>\<open>Clay_BarChart__GetBarColor\<close>, with its own \<^verbatim>\<open>static uint32_t seed\<close> passed in and
  returned.\<close>

definition Clay_BarChart__GetBarColor ::
  "uint32 \<Rightarrow> Clay_BarChart_Config \<Rightarrow> uint32 \<Rightarrow> uint32 \<Rightarrow> (Clay_Color \<times> uint32) option" where
  "Clay_BarChart__GetBarColor now c index sd =
    (case bar_colorMode c of
       CLAY_BARCHART_COLOR_MODE_PER_BAR \<Rightarrow>
         map_option (\<lambda>d. (bar_color d, sd)) (c_index (bar_data c) (unat index))
     | CLAY_BARCHART_COLOR_MODE_PALETTE \<Rightarrow>
         (case bar_colorConfig c of
            BarPalette colors count \<Rightarrow>
              if colors \<noteq> None \<and> 0 < count
              then map_option (\<lambda>col. (col, sd)) (c_index colors (unat (index mod count)))
              else map_option (\<lambda>d. (bar_color d, sd)) (c_index (bar_data c) (unat index))
          | _ \<Rightarrow> None)
     | CLAY_BARCHART_COLOR_MODE_GRADIENT \<Rightarrow>
         (case bar_colorConfig c of
            BarGradient s e \<Rightarrow>
              Some (Clay_BarChart__LerpColor s e (gradient_t (bar_dataCount c) index), sd)
          | _ \<Rightarrow> None)
     | CLAY_BARCHART_COLOR_MODE_RANDOM \<Rightarrow>
         (case bar_colorConfig c of
            BarRandom cfg_seed \<Rightarrow>
              let sd1 = (if sd = 0 then (if cfg_seed \<noteq> 0 then cfg_seed else now) else sd);
                  rnd = Clay_BarChart__Random sd1
              in Some (random_color rnd, rnd)
          | _ \<Rightarrow> None))"

text \<open>The circular buffer \<^verbatim>\<open>Clay__BarChartConfigBuffer[32]\<close> with its index. The buffer is a
  function of the slot number, of which the C array has the slots 0 to 31.\<close>

record bar_store =
  Clay__BarChartConfigBuffer :: "nat \<Rightarrow> Clay_BarChart_Config"
  Clay__BarChartConfigIndex :: uint32

definition is_unset_color :: "Clay_Color \<Rightarrow> bool" where
  "is_unset_color col =
    (f_eq (color_a col) 0 \<and> f_eq (color_r col) 0 \<and> f_eq (color_g col) 0 \<and> f_eq (color_b col) 0)"

text \<open>The block \<^verbatim>\<open>Apply defaults for unset values\<close>: 16, (245, 245, 245, 255),
  (60, 60, 60, 255), 60.0f and 8.0f.\<close>

definition apply_defaults :: "Clay_BarChart_Config \<Rightarrow> Clay_BarChart_Config" where
  "apply_defaults c =
    (let c1 = (if bar_labelFontSize c = 0 then c\<lparr>bar_labelFontSize := 16\<rparr> else c);
         c2 = (if is_unset_color (bar_backgroundColor c1)
               then c1\<lparr>bar_backgroundColor :=
                      \<lparr> color_r = 0x43750000, color_g = 0x43750000, color_b = 0x43750000,
                        color_a = 0x437F0000 \<rparr>\<rparr>
               else c1);
         c3 = (if is_unset_color (bar_labelTextColor c2)
               then c2\<lparr>bar_labelTextColor :=
                      \<lparr> color_r = 0x42700000, color_g = 0x42700000, color_b = 0x42700000,
                        color_a = 0x437F0000 \<rparr>\<rparr>
               else c2);
         c4 = (if f_eq (barWidth c3) 0 then c3\<lparr>barWidth := 0x42700000\<rparr> else c3)
     in if f_eq (barGap c4) 0 then c4\<lparr>barGap := 0x41000000\<rparr> else c4)"

text \<open>\<^verbatim>\<open>Clay__StoreBarChartConfig\<close> returns the address of a slot, here the slot number.\<close>

definition Clay__StoreBarChartConfig :: "Clay_BarChart_Config \<Rightarrow> bar_store \<Rightarrow> nat \<times> bar_store" where
  "Clay__StoreBarChartConfig c st =
    (let idx = (if 32 \<le> Clay__BarChartConfigIndex st then 0 else Clay__BarChartConfigIndex st)
     in (unat idx,
         st\<lparr>Clay__BarChartConfigBuffer := (Clay__BarChartConfigBuffer st)(unat idx := apply_defaults c),
            Clay__BarChartConfigIndex := idx + 1\<rparr>))"

definition Clay_BarChart__ResetConfigBuffer :: "bar_store \<Rightarrow> bar_store" where
  "Clay_BarChart__ResetConfigBuffer st = st\<lparr>Clay__BarChartConfigIndex := 0\<rparr>"

text \<open>Storing a list of configurations one after the other; the result lists the slots
  returned, in call order.\<close>

fun store_all :: "Clay_BarChart_Config list \<Rightarrow> bar_store \<Rightarrow> nat list \<times> bar_store" where
  "store_all [] st = ([], st)"
| "store_all (c # cs) st =
    (let r = Clay__StoreBarChartConfig c st; rs = store_all cs (snd r)
     in (fst r # fst rs, snd rs))"

section \<open>Gradient colours\<close>








section \<open>Pie chart: default configuration\<close>

text \<open>\<^verbatim>\<open>Clay_PieChart_DefaultConfig\<close>, the same in both pie chart headers: radius 120.0
  (\<open>0x42F00000\<close>), explode distance 10.0 (\<open>0x41200000\<close>), start angle -90.0
  (\<open>0xC2B40000\<close>), the colour channels 60.0 (\<open>0x42700000\<close>), 100.0 (\<open>0x42C80000\<close>),
  150.0 (\<open>0x43160000\<close>), 200.0 (\<open>0x43480000\<close>), 250.0 (\<open>0x437A0000\<close>) and 255.0
  (\<open>0x437F0000\<close>).\<close>

definition Clay_PieChart_DefaultConfig :: Clay_PieChart_Config where
  "Clay_PieChart_DefaultConfig =
    \<lparr> data = None, dataCount = 0,
      radius = 0x42F00000, donutHoleRadius = 0, explodeDistance = 0x41200000,
      showLabels = False, showValues = False, showPercentages = True, showLegend = True,
      showSectorLines = True,
      backgroundColor = \<lparr> color_r = 0x437F0000, color_g = 0x437F0000, color_b = 0x437F0000,
                            color_a = 0x437F0000 \<rparr>,
      labelTextColor = \<lparr> color_r = 0x42700000, color_g = 0x42700000, color_b = 0x42700000,
                           color_a = 0x437F0000 \<rparr>,
      sectorLineColor = \<lparr> color_r = 0x437F0000, color_g = 0x437F0000, color_b = 0x437F0000,
                            color_a = 0x43480000 \<rparr>,
      labelFontSize = 14, labelFontId = 0, startAngle = 0xC2B40000,
      colorMode = CLAY_PIECHART_COLOR_MODE_PER_SEGMENT,
      colorConfig = Gradient
        \<lparr> color_r = 0x42C80000, color_g = 0x43160000, color_b = 0x437A0000, color_a = 0x437F0000 \<rparr>
        \<lparr> color_r = 0x437A0000, color_g = 0x42C80000, color_b = 0x43160000, color_a = 0x437F0000 \<rparr> \<rparr>"

section \<open>Example inputs\<close>

text \<open>The colours of the demo application, with their channels as binary32 patterns:
  100.0 is \<open>0x42C80000\<close>, 120.0 is \<open>0x42F00000\<close>, 150.0 is \<open>0x43160000\<close>, 200.0 is
  \<open>0x43480000\<close>, 250.0 is \<open>0x437A0000\<close>, 254.0 is \<open>0x437E0000\<close>, 255.0 is
  \<open>0x437F0000\<close>.\<close>

definition COLOR_BLUE :: Clay_Color where
  "COLOR_BLUE = \<lparr> color_r = 0x42C80000, color_g = 0x43160000, color_b = 0x437A0000,
                   color_a = 0x437F0000 \<rparr>"

definition COLOR_GREEN :: Clay_Color where
  "COLOR_GREEN = \<lparr> color_r = 0x42F00000, color_g = 0x43480000, color_b = 0x42F00000,
                    color_a = 0x437F0000 \<rparr>"

text \<open>The chart of the header's usage example: the values 30.0 (\<open>0x41F00000\<close>), 50.0
  (\<open>0x42480000\<close>) and 20.0 (\<open>0x41A00000\<close>) in the default configuration.\<close>

definition COLOR_RED :: Clay_Color where
  "COLOR_RED = \<lparr> color_r = 0x437A0000, color_g = 0x42C80000, color_b = 0x42C80000,
                  color_a = 0x437F0000 \<rparr>"

definition example_data :: "Clay_PieChart_DataPoint list" where
  "example_data =
    [\<lparr> dp_value = 0x41F00000, dp_label = ''Red'', dp_color = COLOR_RED, dp_exploded = False \<rparr>,
     \<lparr> dp_value = 0x42480000, dp_label = ''Blue'', dp_color = COLOR_BLUE, dp_exploded = False \<rparr>,
     \<lparr> dp_value = 0x41A00000, dp_label = ''Green'', dp_color = COLOR_GREEN, dp_exploded = False \<rparr>]"

definition example_config :: Clay_PieChart_Config where
  "example_config = Clay_PieChart_DefaultConfig\<lparr>data := Some example_data, dataCount := 3\<rparr>"


text \<open>The bar chart configuration of the demo, cut to two bars of 125.5 and 142.0.\<close>

definition demo_bar_config :: Clay_BarChart_Config where
  "demo_bar_config =
    \<lparr> bar_data = Some [\<lparr> bar_value = 0x42FB0000, bar_label = ''Jan'', bar_color = COLOR_GREEN \<rparr>,
                         \<lparr> bar_value = 0x430E0000, bar_label = ''Feb'', bar_color = COLOR_BLUE \<rparr>],
      bar_dataCount = 2, orientation = CLAY_BARCHART_ORIENTATION_VERTICAL,
      barWidth = 0, barGap = 0, maxValue = 0,
      bar_backgroundColor = \<lparr> color_r = 0x437F0000, color_g = 0x437F0000, color_b = 0x437F0000,
                                color_a = 0x437E0000 \<rparr>,
      gridColor = zero_color, bar_labelTextColor = zero_color,
      bar_labelFontSize = 0, bar_labelFontId = 0,
      showGrid = False, bar_showLabels = True, bar_showValues = True,
      bar_colorMode = CLAY_BARCHART_COLOR_MODE_GRADIENT,
      bar_colorConfig = BarGradient COLOR_BLUE COLOR_GREEN \<rparr>"

text \<open>What the example chart emits. \<^verbatim>\<open>Clay_PieChart_Render\<close> declares the container, the
  custom element of 260.0 by 260.0 (\<open>0x43820000\<close>) and the legend with the percentages
  30.000002 (\<open>0x41F00001\<close>), 50.0 and 20.0. Drawn into a texture of 256 by 256 the segments
  have the centre 128.0, the radius 118.15385 (\<open>0x42EC4EC5\<close>), the explode distance
  9.846154 (\<open>0x411D89D9\<close>), the start angles -90.0, 18.000008 (\<open>0x41900004\<close>) and 198.0
  (\<open>0x43460000\<close>), and the sweeps 108.00001 (\<open>0x42D80001\<close>), 180.0 (\<open>0x43340000\<close>) and
  72.0 (\<open>0x42900000\<close>).\<close>

definition example_layout :: "event list" where
  "example_layout =
    [ChartContainer ''MyChart'' True, CustomElement 0x43820000 0x43820000,
     LegendItem 0 COLOR_RED ''Red'' 0x41F00001,
     LegendItem 1 COLOR_BLUE ''Blue'' 0x42480000,
     LegendItem 2 COLOR_GREEN ''Green'' 0x41A00000]"

definition example_segment :: "uint32 \<Rightarrow> float32 \<Rightarrow> float32 \<Rightarrow> Clay_Color \<Rightarrow> bool \<Rightarrow> event" where
  "example_segment i start sweep col is_last =
    RenderSegment
      \<lparr> seg_index = i, seg_centerX = 0x43000000, seg_centerY = 0x43000000,
        seg_startAngleDeg = start, seg_sweepAngleDeg = sweep,
        seg_radius = 0x42EC4EC5, seg_donutHoleRadius = 0, seg_explodeDistance = 0x411D89D9,
        seg_exploded = False, seg_color = col, seg_isLast = is_last \<rparr>"

definition example_segments :: "event list" where
  "example_segments =
    [example_segment 0 0xC2B40000 0x42D80001 COLOR_RED False,
     example_segment 1 0x41900004 0x43340000 COLOR_BLUE False,
     example_segment 2 0x43460000 0x42900000 COLOR_GREEN True]"

definition example_regenerated :: "event list" where
  "example_regenerated =
    [LoadRenderTexture 1 256 256, BeginTextureMode 1, ClearBackground]
      @ example_segments @ [EndTextureMode]"

text \<open>Variants of the example chart: turned to the start angle 0.0, without sector
  lines, with other labels and label style, and with the values 30.0 and -50.0
  (\<open>0xC2480000\<close>), whose total is -20.0 (\<open>0xC1A00000\<close>).\<close>

definition rotated_config :: Clay_PieChart_Config where
  "rotated_config = example_config\<lparr>startAngle := 0\<rparr>"

definition unlined_config :: Clay_PieChart_Config where
  "unlined_config = example_config\<lparr>showSectorLines := False\<rparr>"

definition relabelled_config :: Clay_PieChart_Config where
  "relabelled_config =
    example_config\<lparr>data := Some (map (\<lambda>d. d\<lparr>dp_label := ''Item''\<rparr>) example_data),
                   labelFontSize := 20, labelTextColor := COLOR_RED\<rparr>"

definition negative_config :: Clay_PieChart_Config where
  "negative_config =
    example_config\<lparr>data := Some
        [\<lparr> dp_value = 0x41F00000, dp_label = ''In'', dp_color = COLOR_GREEN, dp_exploded = False \<rparr>,
         \<lparr> dp_value = 0xC2480000, dp_label = ''Out'', dp_color = COLOR_RED, dp_exploded = False \<rparr>],
      dataCount := 2\<rparr>"

text \<open>The random colour mode as the demo sets it up, with the seed 12345, for the pie
  chart and for the bar chart. The first two values of the generator from that seed are
  \<open>0x53DC167E\<close> and \<open>0x270427DF\<close>; they give the colours (218, 206, 196, 255) and
  (231, 227, 104, 255).\<close>

definition random_config :: Clay_PieChart_Config where
  "random_config = example_config\<lparr>colorMode := CLAY_PIECHART_COLOR_MODE_RANDOM,
                                    colorConfig := Random 12345\<rparr>"

definition random_bar_config :: Clay_BarChart_Config where
  "random_bar_config = demo_bar_config\<lparr>bar_colorMode := CLAY_BARCHART_COLOR_MODE_RANDOM,
                                         bar_colorConfig := BarRandom 12345\<rparr>"

definition first_random_color :: Clay_Color where
  "first_random_color = \<lparr> color_r = 0x435A0000, color_g = 0x434E0000, color_b = 0x43440000,
                           color_a = 0x437F0000 \<rparr>"

definition second_random_color :: Clay_Color where
  "second_random_color = \<lparr> color_r = 0x43670000, color_g = 0x43630000, color_b = 0x42D00000,
                            color_a = 0x437F0000 \<rparr>"

text \<open>The example chart drawn directly, as the element 7 with the bounding box
  (0, 0, 400, 400): the centre is (146.0, 200.0), that is (\<open>0x43120000\<close>, \<open>0x43480000\<close>),
  and radius and explode distance are unscaled. And a chart of the values 3.0, 6.0 and
  1.0 (\<open>0x40400000\<close>, \<open>0x40C00000\<close>, \<open>0x3F800000\<close>), whose total is 10.0.\<close>

definition drawn_segment :: "uint32 \<Rightarrow> float32 \<Rightarrow> float32 \<Rightarrow> Clay_Color \<Rightarrow> bool \<Rightarrow> event" where
  "drawn_segment i start sweep col is_last =
    RenderSegment
      \<lparr> seg_index = i, seg_centerX = 0x43120000, seg_centerY = 0x43480000,
        seg_startAngleDeg = start, seg_sweepAngleDeg = sweep,
        seg_radius = 0x42F00000, seg_donutHoleRadius = 0, seg_explodeDistance = 0x41200000,
        seg_exploded = False, seg_color = col, seg_isLast = is_last \<rparr>"

definition example_drawn :: "event list" where
  "example_drawn =
    [drawn_segment 0 0xC2B40000 0x42D80001 COLOR_RED False,
     drawn_segment 1 0x41900004 0x43340000 COLOR_BLUE False,
     drawn_segment 2 0x43460000 0x42900000 COLOR_GREEN True]"

definition draw_commands :: "(uint32 \<times> Clay_BoundingBox) list" where
  "draw_commands =
    [(7, \<lparr> bb_x = 0, bb_y = 0, bb_width = 0x43C80000, bb_height = 0x43C80000 \<rparr>)]"

definition tenths_config :: Clay_PieChart_Config where
  "tenths_config =
    example_config\<lparr>data := Some
        [\<lparr> dp_value = 0x40400000, dp_label = ''A'', dp_color = COLOR_RED, dp_exploded = False \<rparr>,
         \<lparr> dp_value = 0x40C00000, dp_label = ''B'', dp_color = COLOR_BLUE, dp_exploded = False \<rparr>,
         \<lparr> dp_value = 0x3F800000, dp_label = ''C'', dp_color = COLOR_GREEN, dp_exploded = False \<rparr>]\<rparr>"

text \<open>Render commands for the chart's custom element with a bounding box of 64 by 64
  (\<open>0x42800000\<close>) and of 128 by 128 (\<open>0x43000000\<close>) pixels: textures of 128 by 128 and of
  256 by 256.\<close>

definition command_64 :: Clay_RenderCommand where
  "command_64 = \<lparr> customData = PieElementData,
     boundingBox = \<lparr> bb_x = 0, bb_y = 0, bb_width = 0x42800000, bb_height = 0x42800000 \<rparr> \<rparr>"

definition command_128 :: Clay_RenderCommand where
  "command_128 = \<lparr> customData = PieElementData,
     boundingBox = \<lparr> bb_x = 0, bb_y = 0, bb_width = 0x43000000, bb_height = 0x43000000 \<rparr> \<rparr>"

text \<open>The state after \<^verbatim>\<open>Clay_PieChart_Render\<close> of the example chart in the initial state,
  and the states in which its texture is cached at a given size.\<close>

definition rendered_element :: Clay_PieChart_CustomElementData where
  "rendered_element =
    \<lparr> elementType = CLAY_PIECHART_CUSTOM_ELEMENT_TYPE, config = example_config,
      totalValue = 0x42C80000, configHash = 0x71F3A2DA,
      texture = zero_texture, textureValid = False \<rparr>"

definition rendered_world :: world where
  "rendered_world = \<lparr> elementDataStorage = rendered_element, seed = 0, live = [] \<rparr>"

definition cached_world :: "int \<Rightarrow> world" where
  "cached_world side =
    \<lparr> elementDataStorage = rendered_element
        \<lparr> texture := \<lparr> rt_id = 1, rt_texture = \<lparr> tex_width = side, tex_height = side \<rparr> \<rparr>,
          textureValid := True \<rparr>,
      seed = 0, live = [1] \<rparr>"

definition initial_bar_store :: bar_store where
  "initial_bar_store =
    \<lparr> Clay__BarChartConfigBuffer = (\<lambda>_. demo_bar_config\<lparr>bar_data := None, bar_dataCount := 0\<rparr>),
      Clay__BarChartConfigIndex = 0 \<rparr>"








section \<open>Facts about the float model\<close>

lemma blen_Suc: "0 < n \<Longrightarrow> blen n = Suc (blen (n div 2))"
  by (subst blen.simps) simp

lemma blen_shift: "2 ^ s \<le> n \<Longrightarrow> blen n = s + blen (n div 2 ^ s)"
proof (induction s arbitrary: n)
  case 0
  then show ?case by simp
next
  case (Suc s)
  have "(0::nat) < 2 ^ Suc s" by simp
  with Suc.prems have pos: "0 < n" by linarith
  from Suc.prems have "2 ^ s \<le> n div 2" by simp
  then have "blen (n div 2) = s + blen (n div 2 div 2 ^ s)" by (rule Suc.IH)
  moreover have "n div 2 div 2 ^ s = n div 2 ^ Suc s"
    by (simp add: div_mult2_eq)
  ultimately show ?case using blen_Suc [OF pos] by simp
qed

lemma blen_0: "blen 0 = 0"
  by (subst blen.simps) simp

lemma blen_1: "blen (Suc 0) = Suc 0"
  by (simp add: blen_Suc blen_0)

lemma blq_eq:
  "strides_ok ss \<Longrightarrow> 0 < b \<Longrightarrow> a < b * 2 ^ Suc (sum_list ss) \<Longrightarrow> blq ss a b = blen (a div b)"
proof (induction ss arbitrary: b)
  case Nil
  then have "a div b < 2" by (simp add: less_mult_imp_div_less mult.commute)
  then have "a div b = 0 \<or> a div b = Suc 0" by linarith
  moreover have "b \<le> a \<longleftrightarrow> a div b \<noteq> 0" using Nil.prems(2) by (simp add: div_eq_0_iff not_less)
  ultimately show ?case by (auto simp: blen_0 blen_1)
next
  case (Cons s ss)
  show ?case
  proof (cases "b * 2 ^ s \<le> a")
    case True
    then have "2 ^ s \<le> a div b"
      using Cons.prems(2) by (simp add: less_eq_div_iff_mult_less_eq mult.commute)
    then have "blen (a div b) = s + blen (a div b div 2 ^ s)" by (rule blen_shift)
    also have "a div b div 2 ^ s = a div (b * 2 ^ s)" by (simp add: div_mult2_eq)
    also have "blen (a div (b * 2 ^ s)) = blq ss a (b * 2 ^ s)"
      using Cons.prems by (intro Cons.IH [symmetric]) (simp_all add: power_add mult.assoc)
    finally show ?thesis using True by simp
  next
    case False
    then have "a < b * 2 ^ s" by simp
    also have "b * 2 ^ s \<le> b * 2 ^ Suc (sum_list ss)"
      using Cons.prems(1) by (simp del: power_Suc)
    finally have "blq ss a b = blen (a div b)"
      using Cons.prems by (intro Cons.IH) simp_all
    with False show ?thesis by simp
  qed
qed

lemma f_round_eval:
  "0 < b \<Longrightarrow> a < b * 2 ^ 512 \<Longrightarrow>
   f_round a b = f_round_at (blq [256, 128, 64, 32, 16, 8, 4, 2, 1] a b - 24) a b"
  by (simp add: f_round_def blq_eq del: blq.simps)

lemma blq_Nil: "blq [] a b = (if b \<le> a then 1 else 0)"
  by simp

lemma blq_Cons:
  "blq (s # ss) a b = (if b * 2 ^ s \<le> a then s + blq ss a (b * 2 ^ s) else blq ss a b)"
  by simp

declare blq.simps [simp del]

named_theorems f_eval \<open>unfolding rules that evaluate float operations on numerals\<close>

lemmas f_eval_defs [f_eval] =
  f_sign_def f_exp_def f_mant_def f_is_nan_def f_is_inf_def f_is_zero_def f_units_def
  f_sval_def rne_def f_round_at_def f_round_eval f_pack_def f_nan_def f_neg_def f_sum_def
  f_add_def f_sub_def f_mul_def f_div_def f_lt_def f_le_def f_eq_def f_of_nat_def
  f_of_uint32_def f_of_int_def f_to_int_def blq_Nil blq_Cons

section \<open>The example chart, evaluated\<close>

lemmas example_defs =
  example_config_def example_data_def Clay_PieChart_DefaultConfig_def
  COLOR_RED_def COLOR_BLUE_def COLOR_GREEN_def example_layout_def example_segment_def
  example_segments_def command_64_def command_128_def rendered_element_def
  rendered_world_def cached_world_def initial_world_def zero_config_def zero_color_def
  zero_texture_def CLAY_PIECHART_CUSTOM_ELEMENT_TYPE_def example_regenerated_def

lemma example_arith_total:
  "f_add 0 0x41F00000 = 0x41F00000"
  "f_add 0x41F00000 0x42480000 = 0x42A00000"
  "f_add 0x42A00000 0x41A00000 = 0x42C80000"
  "f_le 0x42C80000 0 = False"
  by (simp_all add: f_eval)

lemma example_arith_size:
  "f_mul 0x42F00000 0x40000000 = 0x43700000"
  "f_mul 0x41200000 0x40000000 = 0x41A00000"
  "f_add 0x43700000 0x41A00000 = 0x43820000"
  by (simp_all add: f_eval)

lemma example_arith_scale:
  "f_of_int 256 = 0x43800000"
  "f_div 0x43800000 0x43820000 = 0x3F7C0FC1"
  "f_lt 0x3F7C0FC1 0x3F7C0FC1 = False"
  "f_div 0x43800000 0x40000000 = 0x43000000"
  "f_mul 0x42F00000 0x3F7C0FC1 = 0x42EC4EC5"
  "f_mul 0x41200000 0x3F7C0FC1 = 0x411D89D9"
  "f_mul 0 0x3F7C0FC1 = 0"
  by (simp_all add: f_eval)

lemma example_arith_sweeps:
  "f_div 0x41F00000 0x42C80000 = 0x3E99999A"
  "f_div 0x42480000 0x42C80000 = 0x3F000000"
  "f_div 0x41A00000 0x42C80000 = 0x3E4CCCCD"
  "f_mul 0x3E99999A 0x43B40000 = 0x42D80001"
  "f_mul 0x3F000000 0x43B40000 = 0x43340000"
  "f_mul 0x3E4CCCCD 0x43B40000 = 0x42900000"
  by (simp_all add: f_eval)

lemma example_arith_angles:
  "f_add 0xC2B40000 0x42D80001 = 0x41900004"
  "f_add 0x41900004 0x43340000 = 0x43460000"
  "f_add 0x43460000 0x42900000 = 0x43870000"
  by (simp_all add: f_eval)

lemma example_arith_percent:
  "f_mul 0x3E99999A 0x42C80000 = 0x41F00001"
  "f_mul 0x3F000000 0x42C80000 = 0x42480000"
  "f_mul 0x3E4CCCCD 0x42C80000 = 0x41A00000"
  by (simp_all add: f_eval)

lemma example_arith_sides:
  "f_mul 0x43000000 0x40000000 = 0x43800000"
  "f_to_int 0x43800000 = Some 256"
  "f_mul 0x42800000 0x40000000 = 0x43000000"
  "f_to_int 0x43000000 = Some 128"
  by (simp_all add: f_eval)

lemmas example_arith = example_arith_total example_arith_size example_arith_scale
  example_arith_sweeps example_arith_angles example_arith_percent example_arith_sides

lemma example_total: "Clay_PieChart__CalculateTotalValue example_config = Some 0x42C80000"
  by (simp add: Clay_PieChart__CalculateTotalValue_def c_elems_def example_defs example_arith)

lemma example_hash: "Clay_PieChart__HashConfig example_config = Some 0x71F3A2DA"
  by (simp add: Clay_PieChart__HashConfig_def c_elems_def hash_point_def hash_mix_def example_defs)

lemma example_render_to_texture:
  "render_to_texture 0 example_config 0x42C80000 256 256 0 = Some (example_segments, 0)"
  by (simp add: render_to_texture_def Let_def c_elems_def c_index_def sweepAngleDeg_def
      Clay_PieChart__RenderSegment_def Clay_PieChart__GetSegmentColor_def example_defs example_arith)

lemma example_legend:
  "Clay_PieChart__RenderLegend 0 example_config 0x42C80000 0 = Some (drop 2 example_layout, 0)"
  by (simp add: Clay_PieChart__RenderLegend_def c_elems_def c_index_def
      Clay_PieChart__GetSegmentColor_def example_defs example_arith word_le_nat_alt)

lemma example_sides:
  "texture_side 0x43000000 = Some 256" "texture_side 0x42800000 = Some 128"
  by (simp_all add: texture_side_def example_arith)


lemma example_fields:
  "data example_config = Some example_data"
  "dataCount example_config = 3"
  "radius example_config = 0x42F00000"
  "donutHoleRadius example_config = 0"
  "explodeDistance example_config = 0x41200000"
  "startAngle example_config = 0xC2B40000"
  "showLegend example_config = True"
  by (simp_all add: example_config_def Clay_PieChart_DefaultConfig_def)

lemma example_render:
  "Clay_PieChart_Render 0 ''MyChart'' example_config initial_world =
     Some (rendered_world, example_layout)"
  by (simp add: Clay_PieChart_Render_def example_total example_hash example_legend
      example_arith example_fields Let_def initial_world_def rendered_world_def
      rendered_element_def example_layout_def)

lemma example_prepare_first:
  "Clay_PieChart_PrepareTexture 0 command_128 rendered_world =
     Some (cached_world 256, example_regenerated)"
  by (simp add: Clay_PieChart_PrepareTexture_def needsRegeneration_def regenerate_def Let_def
      rendered_world_def rendered_element_def cached_world_def command_128_def
      zero_texture_def example_fields example_regenerated_def
      raylib_LoadRenderTexture_def raylib_UnloadRenderTexture_def fresh_id_def
      example_hash example_sides example_arith example_render_to_texture)

lemma example_prepare_resize:
  "Clay_PieChart_PrepareTexture 0 command_128 (cached_world 128) =
     Some (cached_world 256, UnloadRenderTexture 1 # example_regenerated)"
  by (simp add: Clay_PieChart_PrepareTexture_def needsRegeneration_def regenerate_def Let_def
      rendered_element_def cached_world_def command_128_def
      zero_texture_def example_fields example_regenerated_def
      raylib_LoadRenderTexture_def raylib_UnloadRenderTexture_def fresh_id_def
      example_hash example_sides example_arith example_render_to_texture)

lemma example_prepare_again:
  "Clay_PieChart_PrepareTexture 0 command_128 (cached_world 256) = Some (cached_world 256, [])"
  by (simp add: Clay_PieChart_PrepareTexture_def needsRegeneration_def Let_def
      rendered_element_def cached_world_def command_128_def example_fields
      example_hash example_sides example_arith)

lemma unlined_fields:
  "data unlined_config = Some example_data"
  "dataCount unlined_config = 3"
  "radius unlined_config = 0x42F00000"
  "donutHoleRadius unlined_config = 0"
  "explodeDistance unlined_config = 0x41200000"
  "startAngle unlined_config = 0xC2B40000"
  "showLegend unlined_config = True"
  by (simp_all add: unlined_config_def example_config_def Clay_PieChart_DefaultConfig_def)

lemma unlined_total: "Clay_PieChart__CalculateTotalValue unlined_config = Some 0x42C80000"
  using example_total
  by (simp add: Clay_PieChart__CalculateTotalValue_def unlined_config_def)

lemma unlined_hash: "Clay_PieChart__HashConfig unlined_config = Some 0x72F3A46D"
  by (simp add: Clay_PieChart__HashConfig_def c_elems_def hash_point_def hash_mix_def example_defs
      unlined_config_def)

lemma unlined_legend:
  "Clay_PieChart__RenderLegend 0 unlined_config 0x42C80000 0 = Some (drop 2 example_layout, 0)"
  by (simp add: Clay_PieChart__RenderLegend_def c_elems_def c_index_def unlined_config_def
      Clay_PieChart__GetSegmentColor_def example_defs example_arith word_le_nat_alt)

lemma unlined_render_to_texture:
  "render_to_texture 0 unlined_config 0x42C80000 256 256 0 = Some (example_segments, 0)"
  by (simp add: render_to_texture_def Let_def c_elems_def c_index_def sweepAngleDeg_def
      unlined_config_def
      Clay_PieChart__RenderSegment_def Clay_PieChart__GetSegmentColor_def example_defs example_arith)

lemma example_run:
  "run 0 [Render ''MyChart'' example_config, PrepareTexture command_128,
          PrepareTexture command_128, Render ''MyChart'' unlined_config,
          PrepareTexture command_128] initial_world =
     Some (\<lparr> elementDataStorage =
               elementDataStorage (cached_world 256)
                 \<lparr>config := unlined_config, configHash := 0x72F3A46D\<rparr>,
             seed = 0, live = [1] \<rparr>,
           example_layout @ example_regenerated
             @ UnloadRenderTexture 1 # example_layout @ example_regenerated)"
  by (simp add: example_render example_prepare_first example_prepare_again)
    (simp add: Clay_PieChart_Render_def Clay_PieChart_PrepareTexture_def needsRegeneration_def
      regenerate_def Let_def cached_world_def rendered_element_def command_128_def
      zero_texture_def example_regenerated_def example_layout_def
      raylib_LoadRenderTexture_def raylib_UnloadRenderTexture_def fresh_id_def
      unlined_fields unlined_total unlined_hash unlined_legend unlined_render_to_texture
      example_sides example_arith)

lemma negative_arith:
  "f_add 0x41F00000 0xC2480000 = 0xC1A00000"
  "f_le 0xC1A00000 0 = True"
  by (simp_all add: f_eval)

lemma negative_total: "Clay_PieChart__CalculateTotalValue negative_config = Some 0xC1A00000"
  by (simp add: Clay_PieChart__CalculateTotalValue_def c_elems_def negative_config_def
      example_config_def example_arith negative_arith)

lemma relabelled_hash: "Clay_PieChart__HashConfig relabelled_config = Some 0x71F3A2DA"
  by (simp add: Clay_PieChart__HashConfig_def c_elems_def hash_point_def hash_mix_def example_defs
      relabelled_config_def)

lemma rotated_fields:
  "data rotated_config = Some example_data"
  "dataCount rotated_config = 3"
  "radius rotated_config = 0x42F00000"
  "donutHoleRadius rotated_config = 0"
  "explodeDistance rotated_config = 0x41200000"
  "startAngle rotated_config = 0"
  "showLegend rotated_config = True"
  by (simp_all add: rotated_config_def example_config_def Clay_PieChart_DefaultConfig_def)

lemma rotated_total: "Clay_PieChart__CalculateTotalValue rotated_config = Some 0x42C80000"
  using example_total
  by (simp add: Clay_PieChart__CalculateTotalValue_def rotated_config_def)

lemma rotated_hash: "Clay_PieChart__HashConfig rotated_config = Some 0x71F3A2DA"
  by (simp add: Clay_PieChart__HashConfig_def c_elems_def hash_point_def hash_mix_def example_defs
      rotated_config_def)

lemma rotated_legend:
  "Clay_PieChart__RenderLegend 0 rotated_config 0x42C80000 0 = Some (drop 2 example_layout, 0)"
  by (simp add: Clay_PieChart__RenderLegend_def c_elems_def c_index_def rotated_config_def
      Clay_PieChart__GetSegmentColor_def example_defs example_arith word_le_nat_alt)

lemma rotated_arith:
  "f_add 0 0x42D80001 = 0x42D80001"
  "f_add 0x42D80001 0x43340000 = 0x43900000"
  "f_add 0x43900000 0x42900000 = 0x43B40000"
  by (simp_all add: f_eval)

lemma rotated_render_to_texture:
  "render_to_texture 0 rotated_config 0x42C80000 256 256 0 =
     Some ([example_segment 0 0 0x42D80001 COLOR_RED False,
            example_segment 1 0x42D80001 0x43340000 COLOR_BLUE False,
            example_segment 2 0x43900000 0x42900000 COLOR_GREEN True], 0)"
  by (simp add: render_to_texture_def Let_def c_elems_def c_index_def sweepAngleDeg_def
      rotated_config_def
      Clay_PieChart__RenderSegment_def Clay_PieChart__GetSegmentColor_def example_defs
      example_arith rotated_arith)

lemma random_arith:
  "f_of_uint32 218 = 0x435A0000" "f_of_uint32 206 = 0x434E0000" "f_of_uint32 196 = 0x43440000"
  "f_of_uint32 231 = 0x43670000" "f_of_uint32 227 = 0x43630000" "f_of_uint32 104 = 0x42D00000"
  "f_of_uint32 255 = 0x437F0000"
  by (simp_all add: f_eval)

lemma random_values:
  "Clay_PieChart__Random 12345 = 0x53DC167E"
  "Clay_PieChart__Random 0x53DC167E = 0x270427DF"
  "random_color 0x53DC167E = first_random_color"
  "random_color 0x270427DF = second_random_color"
  by (simp_all add: Clay_PieChart__Random_def random_color_def random_arith
      first_random_color_def second_random_color_def)

lemma draw_arith:
  "f_div 0x43820000 0x40000000 = 0x43020000"
  "f_add 0 0x41800000 = 0x41800000"
  "f_add 0x41800000 0x43020000 = 0x43120000"
  "f_div 0x43C80000 0x40000000 = 0x43480000"
  "f_add 0 0x43480000 = 0x43480000"
  by (simp_all add: f_eval)

lemma example_draw:
  "Clay_PieChart_Draw 0 7 example_config draw_commands 0 = Some (example_drawn, 0)"
  by (simp add: Clay_PieChart_Draw_def example_total example_fields example_arith draw_arith
      draw_commands_def Let_def)
    (simp add: c_elems_def c_index_def sweepAngleDeg_def example_drawn_def drawn_segment_def
      Clay_PieChart__RenderSegment_def Clay_PieChart__GetSegmentColor_def example_defs
      example_arith draw_arith)


lemma tenths_arith:
  "f_add 0 0x40400000 = 0x40400000"
  "f_add 0x40400000 0x40C00000 = 0x41100000"
  "f_add 0x41100000 0x3F800000 = 0x41200000"
  "f_div 0x40400000 0x41200000 = 0x3E99999A"
  "f_div 0x40C00000 0x41200000 = 0x3F19999A"
  "f_div 0x3F800000 0x41200000 = 0x3DCCCCCD"
  "f_mul 0x3F19999A 0x43B40000 = 0x43580001"
  "f_mul 0x3DCCCCCD 0x43B40000 = 0x42100000"
  "f_add 0x42D80001 0x43580001 = 0x43A20001"
  "f_add 0x43A20001 0x42100000 = 0x43B40001"
  by (simp_all add: f_eval)

lemma degree_literals:
  "f_of_nat 100 = 0x42C80000"
  "f_of_nat 108 = 0x42D80000"
  "f_of_nat 360 = 0x43B40000"
  "f_of_nat 30 = 0x41F00000"
  "f_of_nat 50 = 0x42480000"
  "f_of_nat 20 = 0x41A00000"
  "f_of_nat 180 = 0x43340000"
  "f_of_nat 72 = 0x42900000"
  "f_of_nat 10 = 0x41200000"
  "f_eq 0x42D80001 0x42D80000 = False"
  "f_eq 0x43B40001 0x43B40000 = False"
  by (simp_all add: f_eval)

section \<open>The bar chart configuration buffer\<close>

lemma store_slot: "fst (Clay__StoreBarChartConfig c st) =
    (if 32 \<le> Clay__BarChartConfigIndex st then 0 else unat (Clay__BarChartConfigIndex st))"
  by (simp add: Clay__StoreBarChartConfig_def Let_def)

lemma store_slot_bound: "fst (Clay__StoreBarChartConfig c st) < 32"
  by (simp add: store_slot word_le_nat_alt not_le)

lemma store_index: "Clay__BarChartConfigIndex (snd (Clay__StoreBarChartConfig c st)) =
    word_of_nat (fst (Clay__StoreBarChartConfig c st)) + 1"
  by (simp add: Clay__StoreBarChartConfig_def Let_def)

lemma store_buffer:
  "Clay__BarChartConfigBuffer (snd (Clay__StoreBarChartConfig c st))
     (fst (Clay__StoreBarChartConfig c st)) = apply_defaults c"
  by (simp add: Clay__StoreBarChartConfig_def Let_def)

lemma Suc_mod_32: "s < 32 \<Longrightarrow> Suc s mod 32 = (if 31 \<le> s then 0 else Suc s)"
  by (cases "s = 31") auto

lemma store_next_slot:
  "fst (Clay__StoreBarChartConfig c' (snd (Clay__StoreBarChartConfig c st))) =
     Suc (fst (Clay__StoreBarChartConfig c st)) mod 32"
proof -
  let ?s = "fst (Clay__StoreBarChartConfig c st)"
  have b: "?s < 32" by (rule store_slot_bound)
  have u: "unat (word_of_nat ?s + 1 :: uint32) = Suc ?s"
    using b by (simp add: unat_word_ariths unat_of_nat)
  show ?thesis
    unfolding store_slot [of c'] store_index
    using b u by (simp add: word_le_nat_alt Suc_mod_32)
qed

lemma store_all_slots:
  "fst (store_all cs st) =
     map (\<lambda>k. (fst (Clay__StoreBarChartConfig c0 st) + k) mod 32) [0..<length cs]"
proof (induction cs arbitrary: st)
  case Nil
  then show ?case by simp
next
  case (Cons c cs)
  have s: "fst (Clay__StoreBarChartConfig c st) = fst (Clay__StoreBarChartConfig c0 st)"
    by (simp add: store_slot)
  have b: "fst (Clay__StoreBarChartConfig c0 st) < 32" by (rule store_slot_bound)
  have n: "fst (Clay__StoreBarChartConfig c0 (snd (Clay__StoreBarChartConfig c st))) =
      Suc (fst (Clay__StoreBarChartConfig c0 st)) mod 32"
    using store_next_slot [of c0 c st] s by simp
  have "fst (store_all (c # cs) st) =
      fst (Clay__StoreBarChartConfig c st) # fst (store_all cs (snd (Clay__StoreBarChartConfig c st)))"
    by (simp add: Let_def)
  also have "\<dots> = fst (Clay__StoreBarChartConfig c0 st) #
      map (\<lambda>k. (Suc (fst (Clay__StoreBarChartConfig c0 st)) mod 32 + k) mod 32) [0..<length cs]"
    using Cons.IH [of "snd (Clay__StoreBarChartConfig c st)"] s n by simp
  also have "\<dots> = map (\<lambda>k. (fst (Clay__StoreBarChartConfig c0 st) + k) mod 32) [0..<length (c # cs)]"
    using b by (simp add: upt_conv_Cons map_Suc_upt [symmetric] mod_add_left_eq del: upt_Suc)
  finally show ?case .
qed

lemma defaults_fields:
  "bar_labelFontSize (apply_defaults c) = (if bar_labelFontSize c = 0 then 16 else bar_labelFontSize c)"
  "barWidth (apply_defaults c) = (if f_eq (barWidth c) 0 then 0x42700000 else barWidth c)"
  "barGap (apply_defaults c) = (if f_eq (barGap c) 0 then 0x41000000 else barGap c)"
  "bar_backgroundColor (apply_defaults c) =
     (if is_unset_color (bar_backgroundColor c)
      then \<lparr> color_r = 0x43750000, color_g = 0x43750000, color_b = 0x43750000, color_a = 0x437F0000 \<rparr>
      else bar_backgroundColor c)"
  "bar_labelTextColor (apply_defaults c) =
     (if is_unset_color (bar_labelTextColor c)
      then \<lparr> color_r = 0x42700000, color_g = 0x42700000, color_b = 0x42700000, color_a = 0x437F0000 \<rparr>
      else bar_labelTextColor c)"
  by (simp_all add: apply_defaults_def Let_def)

lemma float_literals:
  "f_of_nat 8 = 0x41000000" "f_of_nat 60 = 0x42700000"
  "f_of_nat 245 = 0x43750000" "f_of_nat 255 = 0x437F0000"
  by (simp_all add: f_eval)

text \<open>
  Claim C10. \<^verbatim>\<open>Clay__StoreBarChartConfig\<close> writes the slot it returns, and that slot is
  the stored index when it is below 32 and slot 0 otherwise, so always one of 0 to 31. What
  it writes is the configuration with the defaults applied: font size 16 where it was 0,
  bar width 60.0 and bar gap 8.0 where they compared equal to 0, the background
  (245, 245, 245, 255) and the label colour (60, 60, 60, 255) where all four channels
  compared equal to 0. The index is left one past the slot. In a run of calls the slots
  advance by one modulo 32, so call \<open>n + 32\<close> returns the slot of call \<open>n\<close> and overwrites
  it.
\<close>

theorem store_bar_chart_config_slots:
  assumes "n + 32 < length cs"
  shows "fst (Clay__StoreBarChartConfig c st) < 32
    \<and> fst (Clay__StoreBarChartConfig c st) =
        (if 32 \<le> Clay__BarChartConfigIndex st then 0 else unat (Clay__BarChartConfigIndex st))
    \<and> Clay__BarChartConfigBuffer (snd (Clay__StoreBarChartConfig c st))
        (fst (Clay__StoreBarChartConfig c st)) = apply_defaults c
    \<and> Clay__BarChartConfigIndex (snd (Clay__StoreBarChartConfig c st)) =
        word_of_nat (fst (Clay__StoreBarChartConfig c st)) + 1
    \<and> bar_labelFontSize (apply_defaults c) =
        (if bar_labelFontSize c = 0 then 16 else bar_labelFontSize c)
    \<and> barWidth (apply_defaults c) = (if f_eq (barWidth c) 0 then f_of_nat 60 else barWidth c)
    \<and> barGap (apply_defaults c) = (if f_eq (barGap c) 0 then f_of_nat 8 else barGap c)
    \<and> bar_backgroundColor (apply_defaults c) =
        (if is_unset_color (bar_backgroundColor c)
         then \<lparr> color_r = f_of_nat 245, color_g = f_of_nat 245, color_b = f_of_nat 245,
                color_a = f_of_nat 255 \<rparr>
         else bar_backgroundColor c)
    \<and> bar_labelTextColor (apply_defaults c) =
        (if is_unset_color (bar_labelTextColor c)
         then \<lparr> color_r = f_of_nat 60, color_g = f_of_nat 60, color_b = f_of_nat 60,
                color_a = f_of_nat 255 \<rparr>
         else bar_labelTextColor c)
    \<and> fst (store_all cs st) ! (n + 32) = fst (store_all cs st) ! n"
proof -
  have wrap: "(s + (n + 32)) mod 32 = (s + n) mod 32" for s :: nat
    by (metis add.assoc mod_add_self2)
  have "fst (store_all cs st) ! (n + 32) = fst (store_all cs st) ! n"
    using assms by (simp add: store_all_slots [where ?c0.0 = c] wrap)
  moreover have "fst (Clay__StoreBarChartConfig c st) < 32"
    by (rule store_slot_bound)
  ultimately show ?thesis
    by (simp add: store_buffer store_index defaults_fields float_literals)
      (simp add: store_slot)
qed

theorem store_bar_chart_config_slots_witness:
  "fst (store_all (replicate 33 demo_bar_config) initial_bar_store) ! 32 = 0
   \<and> fst (store_all (replicate 33 demo_bar_config) initial_bar_store) ! 0 = 0
   \<and> barWidth (Clay__BarChartConfigBuffer
        (snd (Clay__StoreBarChartConfig demo_bar_config initial_bar_store)) 0) = 0x42700000"
  using store_bar_chart_config_slots [of 0 "replicate 33 demo_bar_config"
      demo_bar_config initial_bar_store]
  by (simp add: store_all_slots [where ?c0.0 = demo_bar_config] store_slot
      initial_bar_store_def demo_bar_config_def f_eq_def f_is_nan_def f_exp_def f_mant_def
      f_sval_def f_sign_def f_units_def float_literals)

section \<open>The configuration fingerprint\<close>

lemma foldl_hash_point_cong:
  "map (\<lambda>d. (dp_value d, dp_exploded d)) ds1 = map (\<lambda>d. (dp_value d, dp_exploded d)) ds2
   \<Longrightarrow> foldl hash_point h ds1 = foldl hash_point h ds2"
proof (induction ds1 arbitrary: ds2 h)
  case Nil
  then show ?case by simp
next
  case (Cons d ds1)
  then obtain d' ds2' where ds2: "ds2 = d' # ds2'" by (cases ds2) auto
  with Cons.prems have "hash_point h d = hash_point h d'"
    by (simp add: hash_point_def)
  with Cons ds2 show ?case by simp
qed

lemma hash_config_cong:
  assumes "dataCount c1 = dataCount c2"
    and "map_option (map (\<lambda>d. (dp_value d, dp_exploded d))) (c_elems (data c1) (dataCount c1))
       = map_option (map (\<lambda>d. (dp_value d, dp_exploded d))) (c_elems (data c2) (dataCount c2))"
    and "radius c1 = radius c2"
    and "donutHoleRadius c1 = donutHoleRadius c2"
    and "colorMode c1 = colorMode c2"
    and "showSectorLines c1 = showSectorLines c2"
  shows "Clay_PieChart__HashConfig c1 = Clay_PieChart__HashConfig c2"
proof (cases "c_elems (data c1) (dataCount c1)")
  case None
  with assms(2) have "c_elems (data c2) (dataCount c2) = None" by simp
  with None show ?thesis by (simp add: Clay_PieChart__HashConfig_def)
next
  case (Some ds1)
  with assms(2) obtain ds2 where ds2: "c_elems (data c2) (dataCount c2) = Some ds2"
    and m: "map (\<lambda>d. (dp_value d, dp_exploded d)) ds1 = map (\<lambda>d. (dp_value d, dp_exploded d)) ds2"
    by (cases "c_elems (data c2) (dataCount c2)") auto
  from m have "foldl hash_point 2166136261 ds1 = foldl hash_point 2166136261 ds2"
    by (rule foldl_hash_point_cong)
  with Some ds2 assms show ?thesis by (simp add: Clay_PieChart__HashConfig_def)
qed

lemma hash_unhashed_fields:
  "Clay_PieChart__HashConfig (c\<lparr>startAngle := x\<rparr>) = Clay_PieChart__HashConfig c"
  "Clay_PieChart__HashConfig (c\<lparr>explodeDistance := x\<rparr>) = Clay_PieChart__HashConfig c"
  "Clay_PieChart__HashConfig (c\<lparr>colorConfig := y\<rparr>) = Clay_PieChart__HashConfig c"
  "Clay_PieChart__HashConfig (c\<lparr>sectorLineColor := z\<rparr>) = Clay_PieChart__HashConfig c"
  by (rule hash_config_cong; simp)+

text \<open>The fields that are folded in do change the fingerprint. Multiplication by the odd
  FNV prime is a bijection on 32-bit words, so one mixing step is injective in the value
  mixed in; the sector-line flag is mixed in last, so flipping it alone always gives
  another fingerprint.\<close>

lemma hash_mix_inject: "hash_mix h v = hash_mix h v' \<longleftrightarrow> v = v'"
proof
  assume "hash_mix h v = hash_mix h v'"
  then have "((h XOR v) * 16777619) * 899433627 = ((h XOR v') * 16777619) * 899433627"
    by (simp only: hash_mix_def)
  then have "(h XOR v) * (16777619 * 899433627) = (h XOR v') * (16777619 * 899433627)"
    by (simp only: mult.assoc)
  moreover have "(16777619 * 899433627 :: uint32) = 1" by simp
  ultimately have "h XOR v = h XOR v'" by (simp only: mult_1_right)
  then have "h XOR (h XOR v) = h XOR (h XOR v')" by simp
  then show "v = v'" by (simp only: xor.assoc [symmetric] xor_self_eq xor.left_neutral)
qed simp

lemma hash_config_sector_lines:
  assumes "Clay_PieChart__HashConfig c \<noteq> None"
  shows "Clay_PieChart__HashConfig (c\<lparr>showSectorLines := \<not> showSectorLines c\<rparr>)
         \<noteq> Clay_PieChart__HashConfig c"
proof -
  from assms obtain ds where "c_elems (data c) (dataCount c) = Some ds"
    by (auto simp: Clay_PieChart__HashConfig_def split: option.splits)
  then show ?thesis
    by (simp add: Clay_PieChart__HashConfig_def hash_mix_inject)
qed

text \<open>
  Claim C8. The fingerprint is a function of the data count, the values and exploded flags
  of the data points that are read, the radius, the hole radius, the colour mode and the
  sector-line flag, and of nothing else. So two configurations that agree on these fields,
  each of which changes the pixels of the chart, have the same fingerprint whatever else
  differs between them: the label text of any data point, the label font size and the
  label colour among them.
\<close>

theorem hash_config_hashed_fields:
  assumes "dataCount c1 = dataCount c2"
    and "map_option (map (\<lambda>d. (dp_value d, dp_exploded d))) (c_elems (data c1) (dataCount c1))
       = map_option (map (\<lambda>d. (dp_value d, dp_exploded d))) (c_elems (data c2) (dataCount c2))"
    and "radius c1 = radius c2"
    and "donutHoleRadius c1 = donutHoleRadius c2"
    and "colorMode c1 = colorMode c2"
    and "showSectorLines c1 = showSectorLines c2"
  shows "Clay_PieChart__HashConfig c1 = Clay_PieChart__HashConfig c2"
  using assms by (rule hash_config_cong)

theorem hash_config_hashed_fields_witness:
  "labelFontSize relabelled_config \<noteq> labelFontSize example_config
   \<and> map dp_label (the (data relabelled_config)) \<noteq> map dp_label (the (data example_config))
   \<and> Clay_PieChart__HashConfig relabelled_config = Clay_PieChart__HashConfig example_config"
  using hash_config_hashed_fields [of relabelled_config example_config]
  by (simp add: relabelled_config_def example_config_def example_data_def c_elems_def
      Clay_PieChart_DefaultConfig_def)

text \<open>
  Claim C2. The fingerprint leaves out fields that change the pixels: the start angle, the
  explode distance and the colours. The example chart turned to the start angle 0.0 has
  the fingerprint of the unturned chart. So when the turned configuration is rendered
  after the unturned one, \<^verbatim>\<open>Clay_PieChart_Render\<close> keeps the cached texture and
  \<^verbatim>\<open>Clay_PieChart_PrepareTexture\<close> does not regenerate it: the only segments ever drawn are
  those that start at -90.0, while drawing the turned configuration gives other segments.
\<close>

theorem hash_config_misses_start_angle:
  "rotated_config = example_config\<lparr>startAngle := 0\<rparr>
   \<and> Clay_PieChart__HashConfig rotated_config = Clay_PieChart__HashConfig example_config
   \<and> run 0 [Render ''MyChart'' example_config, PrepareTexture command_128,
            Render ''MyChart'' rotated_config, PrepareTexture command_128] initial_world =
       Some (\<lparr> elementDataStorage = elementDataStorage (cached_world 256)\<lparr>config := rotated_config\<rparr>,
               seed = 0, live = [1] \<rparr>,
             example_layout @ example_regenerated @ example_layout)
   \<and> render_to_texture 0 example_config 0x42C80000 256 256 0 = Some (example_segments, 0)
   \<and> render_to_texture 0 rotated_config 0x42C80000 256 256 0 \<noteq> Some (example_segments, 0)"
  by (simp add: example_render example_prepare_first rotated_hash example_hash
      example_render_to_texture rotated_render_to_texture)
    (simp add: Clay_PieChart_Render_def Clay_PieChart_PrepareTexture_def needsRegeneration_def
      Let_def cached_world_def rendered_element_def command_128_def
      example_layout_def example_segments_def example_segment_def
      rotated_fields rotated_total rotated_hash rotated_legend
      example_sides example_arith, simp add: rotated_config_def)

section \<open>Degenerate configurations\<close>

text \<open>
  Claim C3, as amended. For a configuration with no data items, a \<^verbatim>\<open>NULL\<close> data pointer or
  a total that is not positive, \<^verbatim>\<open>Clay_PieChart_Render\<close> of either header declares nothing
  and leaves the state as it was (the cached element included), and \<^verbatim>\<open>Clay_PieChart_Draw\<close>
  draws nothing. \<^verbatim>\<open>Clay_PieChart_Draw\<close> is silent only for the non-positive total: for no
  items or a \<^verbatim>\<open>NULL\<close> pointer it writes one line to \<^verbatim>\<open>stderr\<close>.
\<close>

theorem degenerate_config:
  assumes "dataCount c = 0 \<or> data c = None
           \<or> (\<exists>tot. Clay_PieChart__CalculateTotalValue c = Some tot \<and> f_le tot 0)"
  shows "Clay_PieChart_Render now chart c w = Some (w, [])
       \<and> Clay_PieChart_Render_direct now chart c width height sd = Some ([], sd)
       \<and> Clay_PieChart_Draw now eid c cmds sd =
           Some (if dataCount c = 0 \<or> data c = None
                 then [LogNoData (dataCount c) (data c = None)] else [], sd)"
  using assms
  by (auto simp: Clay_PieChart_Render_def Clay_PieChart_Render_direct_def Clay_PieChart_Draw_def)

theorem degenerate_config_counterexample:
  "dataCount Clay_PieChart_DefaultConfig = 0
   \<and> Clay_PieChart_Draw 0 0 Clay_PieChart_DefaultConfig [] 0 = Some ([LogNoData 0 True], 0)"
  by (simp add: Clay_PieChart_Draw_def Clay_PieChart_DefaultConfig_def)

theorem degenerate_config_witness:
  "Clay_PieChart__CalculateTotalValue negative_config = Some 0xC1A00000
   \<and> f_le 0xC1A00000 0
   \<and> Clay_PieChart_Render 0 ''MyChart'' negative_config initial_world = Some (initial_world, [])
   \<and> Clay_PieChart_Render_direct 0 ''MyChart'' negative_config 0x43C80000 0x43C80000 0 = Some ([], 0)
   \<and> Clay_PieChart_Draw 0 0 negative_config [] 0 = Some ([], 0)"
  using degenerate_config [of negative_config 0 "''MyChart''" initial_world "0x43C80000" "0x43C80000" 0 0 "[]"]
  by (simp add: negative_total negative_arith)
    (simp add: negative_config_def example_config_def)

section \<open>The regeneration decision\<close>

lemma regenerate_result:
  assumes "regenerate now h tw th w = Some (w', evs)"
  shows "evs \<noteq> []"
    and "textureValid (elementDataStorage w')"
    and "configHash (elementDataStorage w') = h"
    and "config (elementDataStorage w') = config (elementDataStorage w)"
    and "totalValue (elementDataStorage w') = totalValue (elementDataStorage w)"
    and "elementType (elementDataStorage w') = elementType (elementDataStorage w)"
    and "tex_width (rt_texture (texture (elementDataStorage w'))) = tw"
    and "tex_height (rt_texture (texture (elementDataStorage w'))) = th"
    and "rt_id (texture (elementDataStorage w')) \<noteq> 0"
    and "LoadRenderTexture (rt_id (texture (elementDataStorage w'))) tw th \<in> set evs"
  using assms
  by (auto simp: regenerate_def Let_def raylib_LoadRenderTexture_def fresh_id_def
      split: option.splits)

lemma prepare_texture_unfold:
  assumes "customData cmd = PieElementData"
    and "elementType (elementDataStorage w) = CLAY_PIECHART_CUSTOM_ELEMENT_TYPE"
    and "dataCount (config (elementDataStorage w)) \<noteq> 0"
    and "data (config (elementDataStorage w)) \<noteq> None"
    and "\<not> f_le (totalValue (elementDataStorage w)) 0"
    and "texture_side (bb_width (boundingBox cmd)) = Some texWidth"
    and "texture_side (bb_height (boundingBox cmd)) = Some texHeight"
    and "Clay_PieChart__HashConfig (config (elementDataStorage w)) = Some fingerprint"
  shows "Clay_PieChart_PrepareTexture now cmd w =
    (if needsRegeneration (elementDataStorage w) fingerprint texWidth texHeight
     then regenerate now fingerprint texWidth texHeight w else Some (w, []))"
  using assms by (auto simp: Clay_PieChart_PrepareTexture_def Let_def)

text \<open>
  Claim C1. For a pie chart element that gets past the guards of
  \<^verbatim>\<open>Clay_PieChart_PrepareTexture\<close>, with the requested texture size \<open>texWidth\<close> by \<open>texHeight\<close>
  and the fingerprint of its current configuration, the call regenerates (its trace is not
  empty, and holds the load of a render texture of the requested size) exactly when the
  texture is not valid, or the stored fingerprint differs, or the cached width or height
  differs from the requested one. Otherwise it changes nothing and calls nothing.
\<close>

theorem prepare_texture_decision:
  assumes "customData cmd = PieElementData"
    and "elementType (elementDataStorage w) = CLAY_PIECHART_CUSTOM_ELEMENT_TYPE"
    and "dataCount (config (elementDataStorage w)) \<noteq> 0"
    and "data (config (elementDataStorage w)) \<noteq> None"
    and "\<not> f_le (totalValue (elementDataStorage w)) 0"
    and "texture_side (bb_width (boundingBox cmd)) = Some texWidth"
    and "texture_side (bb_height (boundingBox cmd)) = Some texHeight"
    and "Clay_PieChart__HashConfig (config (elementDataStorage w)) = Some fingerprint"
    and "Clay_PieChart_PrepareTexture now cmd w = Some (w', evs)"
  shows "(evs \<noteq> [] \<longleftrightarrow>
           (\<not> textureValid (elementDataStorage w)
            \<or> configHash (elementDataStorage w) \<noteq> fingerprint
            \<or> tex_width (rt_texture (texture (elementDataStorage w))) \<noteq> texWidth
            \<or> tex_height (rt_texture (texture (elementDataStorage w))) \<noteq> texHeight))
       \<and> (evs = [] \<longrightarrow> w' = w)
       \<and> (evs \<noteq> [] \<longrightarrow>
            LoadRenderTexture (rt_id (texture (elementDataStorage w'))) texWidth texHeight \<in> set evs
            \<and> tex_width (rt_texture (texture (elementDataStorage w'))) = texWidth
            \<and> tex_height (rt_texture (texture (elementDataStorage w'))) = texHeight
            \<and> configHash (elementDataStorage w') = fingerprint
            \<and> textureValid (elementDataStorage w'))"
proof (cases "needsRegeneration (elementDataStorage w) fingerprint texWidth texHeight")
  case True
  with assms have r: "regenerate now fingerprint texWidth texHeight w = Some (w', evs)"
    by (simp add: prepare_texture_unfold)
  from True regenerate_result [OF r] show ?thesis
    by (simp add: needsRegeneration_def)
next
  case False
  with assms have "w' = w" "evs = []"
    by (simp_all add: prepare_texture_unfold)
  with False show ?thesis by (simp add: needsRegeneration_def)
qed

theorem prepare_texture_decision_witness:
  "Clay_PieChart_PrepareTexture 0 command_128 (cached_world 128) =
     Some (cached_world 256, UnloadRenderTexture 1 # example_regenerated)
   \<and> textureValid (elementDataStorage (cached_world 128))
   \<and> Clay_PieChart__HashConfig (config (elementDataStorage (cached_world 128))) =
       Some (configHash (elementDataStorage (cached_world 128)))
   \<and> tex_width (rt_texture (texture (elementDataStorage (cached_world 128)))) = 128
   \<and> texture_side (bb_width (boundingBox command_128)) = Some 256
   \<and> UnloadRenderTexture 1 # example_regenerated \<noteq> []
   \<and> LoadRenderTexture 1 256 256 \<in> set (UnloadRenderTexture 1 # example_regenerated)"
  using prepare_texture_decision [of command_128 "cached_world 128" 256 256 "0x71F3A2DA" 0
      "cached_world 256" "UnloadRenderTexture 1 # example_regenerated"]
    example_prepare_resize
  by (simp add: cached_world_def rendered_element_def command_128_def example_fields
      example_hash example_sides example_arith CLAY_PIECHART_CUSTOM_ELEMENT_TYPE_def)




section \<open>Texture ownership\<close>

lemma replay_append: "replay (e1 @ e2) ids = replay e2 (replay e1 ids)"
  by (induction e1 ids rule: replay.induct) simp_all

lemma trace_ok_append:
  "trace_ok ids (e1 @ e2) \<longleftrightarrow> trace_ok ids e1 \<and> trace_ok (replay e1 ids) e2"
proof (induction e1 arbitrary: ids)
  case Nil
  then show ?case by (cases e2) auto
next
  case (Cons ev e1)
  have "replay (ev # e1) ids = replay e1 (replay [ev] ids)"
    using replay_append [of "[ev]" e1 ids] by simp
  with Cons show ?case by auto
qed

lemma replay_plain:
  "\<forall>ev \<in> set evs. \<not> texture_event ev \<Longrightarrow> replay evs ids = ids"
proof (induction evs)
  case Nil
  then show ?case by simp
next
  case (Cons ev evs)
  then show ?case by (cases ev) simp_all
qed

lemma trace_ok_plain:
  "\<forall>ev \<in> set evs. \<not> texture_event ev \<Longrightarrow> trace_ok ids evs \<longleftrightarrow> length ids \<le> 1"
proof (induction evs)
  case Nil
  then show ?case by simp
next
  case (Cons ev evs)
  then show ?case by (cases ev) simp_all
qed

lemma legend_loop_plain:
  "legend_loop now c tot ds i sd = Some (evs, sd') \<Longrightarrow> \<forall>ev \<in> set evs. \<not> texture_event ev"
proof (induction ds arbitrary: i sd evs sd')
  case Nil
  then show ?case by simp
next
  case (Cons d ds)
  then show ?case
    by (fastforce split: option.splits if_splits prod.splits)
qed

lemma segment_loop_plain:
  "segment_loop now c tot cx cy ds i ang sd = Some (evs, sd') \<Longrightarrow>
     \<forall>ev \<in> set evs. \<not> texture_event ev"
proof (induction ds arbitrary: i ang sd evs sd')
  case Nil
  then show ?case by simp
next
  case (Cons d ds)
  then show ?case
    by (fastforce simp: Clay_PieChart__RenderSegment_def split: option.splits prod.splits)
qed

lemma render_step:
  assumes "cache_consistent w"
    and "Clay_PieChart_Render now chart c w = Some (w', evs)"
  shows "cache_consistent w' \<and> trace_ok (live w) evs \<and> replay evs (live w) = live w'"
proof -
  have plain: "\<forall>ev \<in> set l. \<not> texture_event ev"
    if "Clay_PieChart__RenderLegend now c tot sd = Some (l, sd1)" for tot sd l sd1
    using that legend_loop_plain
    by (auto simp: Clay_PieChart__RenderLegend_def split: option.splits)
  show ?thesis
    using assms plain
    by (auto simp: cache_consistent_def Clay_PieChart_Render_def Let_def
        raylib_UnloadRenderTexture_def zero_texture_def
        trace_ok_append replay_append trace_ok_plain replay_plain
        split: option.splits if_splits)
qed

lemma render_to_texture_plain:
  "render_to_texture now c tot tw th sd = Some (evs, sd') \<Longrightarrow>
     \<forall>ev \<in> set evs. \<not> texture_event ev"
  using segment_loop_plain
  by (auto simp: render_to_texture_def Let_def split: option.splits)

lemma regenerate_step:
  assumes "cache_consistent w"
    and "regenerate now h tw th w = Some (w', evs)"
  shows "cache_consistent w' \<and> trace_ok (live w) evs \<and> replay evs (live w) = live w'"
  using assms render_to_texture_plain
  by (auto simp: cache_consistent_def regenerate_def Let_def raylib_UnloadRenderTexture_def
      raylib_LoadRenderTexture_def fresh_id_def
      trace_ok_append replay_append trace_ok_plain replay_plain
      split: option.splits if_splits)

lemma prepare_cases:
  assumes "Clay_PieChart_PrepareTexture now cmd w = Some (w', evs)"
  shows "(w' = w \<and> evs = []) \<or>
      regenerate now (the (Clay_PieChart__HashConfig (config (elementDataStorage w))))
        (the (texture_side (bb_width (boundingBox cmd))))
        (the (texture_side (bb_height (boundingBox cmd)))) w = Some (w', evs)"
  using assms
  by (simp add: Clay_PieChart_PrepareTexture_def Let_def split: option.splits if_splits)

lemma prepare_step:
  assumes "cache_consistent w"
    and "Clay_PieChart_PrepareTexture now cmd w = Some (w', evs)"
  shows "cache_consistent w' \<and> trace_ok (live w) evs \<and> replay evs (live w) = live w'"
proof -
  from prepare_cases [OF assms(2)] show ?thesis
  proof
    assume "w' = w \<and> evs = []"
    with assms(1) show ?thesis by (auto simp: cache_consistent_def split: if_splits)
  next
    assume "regenerate now (the (Clay_PieChart__HashConfig (config (elementDataStorage w))))
        (the (texture_side (bb_width (boundingBox cmd))))
        (the (texture_side (bb_height (boundingBox cmd)))) w = Some (w', evs)"
    with assms(1) show ?thesis by (rule regenerate_step)
  qed
qed

lemma run_steps:
  assumes "cache_consistent w"
    and "run now calls w = Some (w', evs)"
  shows "cache_consistent w' \<and> trace_ok (live w) evs \<and> replay evs (live w) = live w'"
  using assms
proof (induction calls arbitrary: w evs)
  case Nil
  then show ?case by (auto simp: cache_consistent_def split: if_splits)
next
  case (Cons k calls)
  from Cons.prems(2) obtain w1 evs1 evs2 where
    k: "do_call now k w = Some (w1, evs1)" and r: "run now calls w1 = Some (w', evs2)"
    and evs: "evs = evs1 @ evs2"
    by (auto split: option.splits)
  have step: "cache_consistent w1 \<and> trace_ok (live w) evs1 \<and> replay evs1 (live w) = live w1"
  proof (cases k)
    case (Render chart c)
    with k Cons.prems(1) show ?thesis by (simp add: render_step)
  next
    case (PrepareTexture cmd)
    with k Cons.prems(1) show ?thesis by (simp add: prepare_step)
  qed
  with Cons.IH [OF _ r] evs show ?case
    by (simp add: trace_ok_append replay_append)
qed

text \<open>
  Claim C5. Over any sequence of \<^verbatim>\<open>Clay_PieChart_Render\<close> and
  \<^verbatim>\<open>Clay_PieChart_PrepareTexture\<close> calls from the initial state: at every point of the trace
  of raylib calls at most one render texture is alive and every load happens while none is
  alive (so the old texture is unloaded before its replacement is loaded); the textures
  alive at the end are those the state records; and \<^verbatim>\<open>Clay_PieChart_GetTexture\<close> only ever
  hands out the live texture.
\<close>

theorem one_live_texture:
  assumes "run now calls initial_world = Some (w, evs)"
  shows "trace_ok [] evs
       \<and> replay evs [] = live w
       \<and> length (live w) \<le> 1
       \<and> (\<forall>cmd t. Clay_PieChart_GetTexture cmd w = Some t \<longrightarrow> live w = [rt_id t] \<and> rt_id t \<noteq> 0)"
proof -
  have "cache_consistent initial_world"
    by (simp add: cache_consistent_def initial_world_def)
  from run_steps [OF this assms] show ?thesis
    by (auto simp: cache_consistent_def initial_world_def Clay_PieChart_GetTexture_def
        split: if_splits)
qed


theorem one_live_texture_witness:
  "trace_ok [] (example_layout @ example_regenerated
             @ UnloadRenderTexture 1 # example_layout @ example_regenerated)
   \<and> replay (example_layout @ example_regenerated
             @ UnloadRenderTexture 1 # example_layout @ example_regenerated) [] = [1]
   \<and> Clay_PieChart_GetTexture command_128
        \<lparr> elementDataStorage =
               elementDataStorage (cached_world 256)
                 \<lparr>config := unlined_config, configHash := 0x72F3A46D\<rparr>,
             seed = 0, live = [1] \<rparr> =
       Some \<lparr> rt_id = 1, rt_texture = \<lparr> tex_width = 256, tex_height = 256 \<rparr> \<rparr>"
  using one_live_texture [OF example_run]
  by (simp add: Clay_PieChart_GetTexture_def cached_world_def rendered_element_def
      command_128_def)


section \<open>Sweep angles\<close>

lemma segment_loop_angles:
  "segment_loop now c tot cx cy ds i ang sd = Some (evs, sd') \<Longrightarrow>
     segments_of evs \<noteq> [] \<or> ds = []"
  "segment_loop now c tot cx cy ds i ang sd = Some (evs, sd') \<Longrightarrow>
     map seg_sweepAngleDeg (segments_of evs) = map (\<lambda>d. sweepAngleDeg tot (dp_value d)) ds
     \<and> map seg_startAngleDeg (segments_of evs) =
         start_angles ang (map (\<lambda>d. sweepAngleDeg tot (dp_value d)) ds)"
proof (induction ds arbitrary: i ang sd evs sd')
  case Nil
  { case 1 then show ?case by simp }
  { case 2 then show ?case by simp }
next
  case (Cons d ds)
  { case 1 then show ?case
      by (auto simp: Clay_PieChart__RenderSegment_def split: option.splits prod.splits) }
  { case 2
    then obtain col sd1 evs1 where
      rest: "segment_loop now c tot cx cy ds (i + 1) (f_add ang (sweepAngleDeg tot (dp_value d))) sd1
               = Some (evs1, sd')"
      and evs: "evs = RenderSegment
          \<lparr> seg_index = i, seg_centerX = cx, seg_centerY = cy,
            seg_startAngleDeg = ang, seg_sweepAngleDeg = sweepAngleDeg tot (dp_value d),
            seg_radius = radius c, seg_donutHoleRadius = donutHoleRadius c,
            seg_explodeDistance = explodeDistance c, seg_exploded = dp_exploded d,
            seg_color = col, seg_isLast = (i = dataCount c - 1) \<rparr> # evs1"
      by (auto simp: Clay_PieChart__RenderSegment_def split: option.splits prod.splits)
    from Cons.IH(2) [OF rest] evs show ?case by simp }
qed


lemma segments_of_append: "segments_of (e1 @ e2) = segments_of e1 @ segments_of e2"
  by (induction e1 rule: segments_of.induct) simp_all

lemma render_to_texture_angles:
  assumes "render_to_texture now c tot tw th sd = Some (evs, sd')"
  shows "\<exists>ds. c_elems (data c) (dataCount c) = Some ds
    \<and> map seg_sweepAngleDeg (segments_of evs) = map (\<lambda>d. sweepAngleDeg tot (dp_value d)) ds
    \<and> map seg_startAngleDeg (segments_of evs) =
        start_angles (startAngle c) (map (\<lambda>d. sweepAngleDeg tot (dp_value d)) ds)"
  using assms segment_loop_angles(2)
  by (auto simp: render_to_texture_def Let_def split: option.splits)

lemma regenerate_angles:
  assumes "regenerate now h tw th w = Some (w', evs)"
  shows "\<exists>ds. c_elems (data (config (elementDataStorage w)))
                (dataCount (config (elementDataStorage w))) = Some ds
    \<and> map seg_sweepAngleDeg (segments_of evs) =
        map (\<lambda>d. sweepAngleDeg (totalValue (elementDataStorage w)) (dp_value d)) ds
    \<and> map seg_startAngleDeg (segments_of evs) =
        start_angles (startAngle (config (elementDataStorage w)))
          (map (\<lambda>d. sweepAngleDeg (totalValue (elementDataStorage w)) (dp_value d)) ds)"
proof -
  from assms obtain segs sd' where
    r: "render_to_texture now (config (elementDataStorage w)) (totalValue (elementDataStorage w))
          tw th (seed w) = Some (segs, sd')"
    and "segments_of evs = segments_of segs"
    by (auto simp: regenerate_def Let_def segments_of_append split: option.splits)
  with render_to_texture_angles [OF r] show ?thesis by simp
qed

lemma prepare_angles:
  assumes "Clay_PieChart_PrepareTexture now cmd w = Some (w', evs)" and "evs \<noteq> []"
  shows "\<not> f_le (totalValue (elementDataStorage w)) 0 \<and>
    (\<exists>ds. c_elems (data (config (elementDataStorage w)))
                (dataCount (config (elementDataStorage w))) = Some ds
    \<and> map seg_sweepAngleDeg (segments_of evs) =
        map (\<lambda>d. sweepAngleDeg (totalValue (elementDataStorage w)) (dp_value d)) ds
    \<and> map seg_startAngleDeg (segments_of evs) =
        start_angles (startAngle (config (elementDataStorage w)))
          (map (\<lambda>d. sweepAngleDeg (totalValue (elementDataStorage w)) (dp_value d)) ds))"
proof -
  from assms have pos: "\<not> f_le (totalValue (elementDataStorage w)) 0"
    by (auto simp: Clay_PieChart_PrepareTexture_def Let_def split: if_splits)
  from prepare_cases [OF assms(1)] assms(2)
  have "regenerate now (the (Clay_PieChart__HashConfig (config (elementDataStorage w))))
        (the (texture_side (bb_width (boundingBox cmd))))
        (the (texture_side (bb_height (boundingBox cmd)))) w = Some (w', evs)"
    by simp
  from regenerate_angles [OF this] pos show ?thesis by simp
qed

lemma draw_angles:
  assumes "Clay_PieChart_Draw now eid c cmds sd = Some (evs, sd')" and "segments_of evs \<noteq> []"
  shows "\<exists>tot ds. Clay_PieChart__CalculateTotalValue c = Some tot \<and> \<not> f_le tot 0
    \<and> c_elems (data c) (dataCount c) = Some ds
    \<and> map seg_sweepAngleDeg (segments_of evs) = map (\<lambda>d. sweepAngleDeg tot (dp_value d)) ds
    \<and> map seg_startAngleDeg (segments_of evs) =
        start_angles (startAngle c) (map (\<lambda>d. sweepAngleDeg tot (dp_value d)) ds)"
  using assms segment_loop_angles(2)
  by (auto simp: Clay_PieChart_Draw_def Let_def split: option.splits if_splits prod.splits)

text \<open>
  Claim C6, as amended. Whenever \<^verbatim>\<open>Clay_PieChart_PrepareTexture\<close> regenerates or
  \<^verbatim>\<open>Clay_PieChart_Draw\<close> draws, the total is positive, segment \<open>i\<close> has the sweep
  \<^verbatim>\<open>(value / total) * 360.0f\<close> as binary32 arithmetic gives it (the quotient rounded, then
  the product rounded), the first segment starts at the configured start angle and each
  next one at the float sum of the start angle and the sweep before it. The sweeps are
  exact only up to rounding and their sum is not always 360.0.
\<close>

theorem sweep_angles:
  "(Clay_PieChart_PrepareTexture now cmd w = Some (w', evs) \<and> evs \<noteq> [] \<longrightarrow>
      \<not> f_le (totalValue (elementDataStorage w)) 0 \<and>
      (\<exists>ds. c_elems (data (config (elementDataStorage w)))
                (dataCount (config (elementDataStorage w))) = Some ds
        \<and> map seg_sweepAngleDeg (segments_of evs) =
            map (\<lambda>d. sweepAngleDeg (totalValue (elementDataStorage w)) (dp_value d)) ds
        \<and> map seg_startAngleDeg (segments_of evs) =
            start_angles (startAngle (config (elementDataStorage w)))
              (map (\<lambda>d. sweepAngleDeg (totalValue (elementDataStorage w)) (dp_value d)) ds)))
   \<and> (Clay_PieChart_Draw now eid c cmds sd = Some (devs, sd') \<and> segments_of devs \<noteq> [] \<longrightarrow>
      (\<exists>tot ds. Clay_PieChart__CalculateTotalValue c = Some tot \<and> \<not> f_le tot 0
        \<and> c_elems (data c) (dataCount c) = Some ds
        \<and> map seg_sweepAngleDeg (segments_of devs) = map (\<lambda>d. sweepAngleDeg tot (dp_value d)) ds
        \<and> map seg_startAngleDeg (segments_of devs) =
            start_angles (startAngle c) (map (\<lambda>d. sweepAngleDeg tot (dp_value d)) ds)))"
  using prepare_angles draw_angles by blast

text \<open>For the values 30.0, 50.0 and 20.0 the total is 100.0 and the sweeps are
  108.00000763 (\<open>0x42D80001\<close>, one unit in the last place above 108.0), 180.0 and 72.0,
  both in the texture and drawn directly; the start angles from -90.0 are -90.0,
  18.00000763 and 198.0.\<close>

theorem sweep_angles_witness:
  "totalValue (elementDataStorage rendered_world) = f_of_nat 100
   \<and> map seg_sweepAngleDeg (segments_of example_regenerated) =
       [0x42D80001, f_of_nat 180, f_of_nat 72]
   \<and> map seg_startAngleDeg (segments_of example_regenerated) =
       [0xC2B40000, 0x41900004, 0x43460000]
   \<and> Clay_PieChart__CalculateTotalValue example_config = Some (f_of_nat 100)
   \<and> map seg_sweepAngleDeg (segments_of example_drawn) =
       [0x42D80001, f_of_nat 180, f_of_nat 72]
   \<and> map seg_startAngleDeg (segments_of example_drawn) =
       [0xC2B40000, 0x41900004, 0x43460000]"
  using sweep_angles [of 0 command_128 rendered_world "cached_world 256" example_regenerated
      7 example_config draw_commands 0 example_drawn 0]
    example_prepare_first example_draw
  by (simp add: degree_literals example_total)
    (simp add: rendered_world_def rendered_element_def example_fields example_data_def
      example_regenerated_def example_segments_def example_segment_def
      example_drawn_def drawn_segment_def c_elems_def
      sweepAngleDeg_def example_arith)

text \<open>The claim as stated fails on the example of the spec: the first sweep is not 108.0.
  And the sweeps of the values 3.0, 6.0 and 1.0 add up, in float arithmetic, to
  360.00003 (\<open>0x43B40001\<close>).\<close>

theorem sweep_angles_counterexample:
  "Clay_PieChart_PrepareTexture 0 command_128 rendered_world =
     Some (cached_world 256, example_regenerated)
   \<and> map dp_value (the (data (config (elementDataStorage rendered_world)))) =
       [f_of_nat 30, f_of_nat 50, f_of_nat 20]
   \<and> map seg_sweepAngleDeg (segments_of example_regenerated) =
       [0x42D80001, f_of_nat 180, f_of_nat 72]
   \<and> \<not> f_eq 0x42D80001 (f_of_nat 108)
   \<and> Clay_PieChart__CalculateTotalValue tenths_config = Some (f_of_nat 10)
   \<and> foldl f_add 0 (map (\<lambda>d. sweepAngleDeg (f_of_nat 10) (dp_value d)) (the (data tenths_config)))
       = 0x43B40001
   \<and> \<not> f_eq 0x43B40001 (f_of_nat 360)"
  by (simp add: example_prepare_first degree_literals)
    (simp add: rendered_world_def rendered_element_def example_fields example_data_def
      example_regenerated_def example_segments_def example_segment_def
      Clay_PieChart__CalculateTotalValue_def c_elems_def tenths_config_def example_config_def
      sweepAngleDeg_def tenths_arith example_arith rotated_arith)

section \<open>The random colour mode\<close>

text \<open>
  Claim C7. In the random colour mode the colour does not depend on the segment index: it
  depends on how often the helper has been called. With the seed 12345 configured, the
  first call for segment 0 gives (218, 206, 196, 255) and leaves the static seed at
  \<open>0x53DC167E\<close>; the next call for the same segment of the same configuration gives
  (231, 227, 104, 255). The bar chart's helper behaves the same.
\<close>

theorem random_color_changes_between_calls:
  "Clay_PieChart__GetSegmentColor 0 random_config 0 0 = Some (first_random_color, 0x53DC167E)
   \<and> Clay_PieChart__GetSegmentColor 0 random_config 0 0x53DC167E =
       Some (second_random_color, 0x270427DF)
   \<and> Clay_BarChart__GetBarColor 0 random_bar_config 0 0 = Some (first_random_color, 0x53DC167E)
   \<and> Clay_BarChart__GetBarColor 0 random_bar_config 0 0x53DC167E =
       Some (second_random_color, 0x270427DF)
   \<and> first_random_color \<noteq> second_random_color"
  by (simp add: Clay_PieChart__GetSegmentColor_def Clay_BarChart__GetBarColor_def
      random_config_def random_bar_config_def Clay_BarChart__Random_def
      Clay_PieChart__Random_def [symmetric] random_values Let_def)
    (simp add: first_random_color_def second_random_color_def)

section \<open>The gradient colour mode\<close>

subsection \<open>Packing and unpacking floats\<close>














subsection \<open>Rounding\<close>















subsection \<open>Operations that are exact\<close>













subsection \<open>The interpolation\<close>













subsection \<open>The example gradients\<close>









end
